theory Spec2Isabelle
  imports Main
begin

section \<open>Descriptors, as the protobuf runtime exposes them to pbspark\<close>

text \<open>
  \<^verbatim>\<open>FieldDescriptor.CPPTYPE_*\<close>, \<^verbatim>\<open>FieldDescriptor.TYPE_*\<close> and
  \<^verbatim>\<open>FieldDescriptor.LABEL_*\<close>: the three tags \<^verbatim>\<open>_proto.py\<close> reads off a field.
\<close>

datatype cpp_type =
  CPPTYPE_INT32 | CPPTYPE_INT64 | CPPTYPE_UINT32 | CPPTYPE_UINT64 | CPPTYPE_DOUBLE
| CPPTYPE_FLOAT | CPPTYPE_BOOL | CPPTYPE_ENUM | CPPTYPE_STRING | CPPTYPE_MESSAGE

datatype field_type =
  TYPE_DOUBLE | TYPE_FLOAT | TYPE_INT64 | TYPE_UINT64 | TYPE_INT32 | TYPE_FIXED64
| TYPE_FIXED32 | TYPE_BOOL | TYPE_STRING | TYPE_GROUP | TYPE_MESSAGE | TYPE_BYTES
| TYPE_UINT32 | TYPE_ENUM | TYPE_SFIXED32 | TYPE_SFIXED64 | TYPE_SINT32 | TYPE_SINT64

datatype label = LABEL_OPTIONAL | LABEL_REQUIRED | LABEL_REPEATED

datatype proto_syntax = Proto2 | Proto3

text \<open>
  An enum type: its full name and its values as (name, number) pairs, in declaration
  order (\<^verbatim>\<open>values_by_name\<close> and \<^verbatim>\<open>values_by_number\<close> are both read off this list).
\<close>

record enum_descriptor =
  enum_full_name :: string
  enum_values :: "(string \<times> int) list"

text \<open>
  A field descriptor. In Python \<^verbatim>\<open>field.message_type\<close> is the Descriptor object of
  the field's message type, or \<^verbatim>\<open>None\<close> for a field that is not message-typed; here it
  is the full name of that descriptor, resolved through the pool below, so that a type
  can refer to itself. \<open>deprecated\<close> is \<^verbatim>\<open>field.GetOptions().deprecated\<close>;
  \<open>file_syntax\<close> is \<^verbatim>\<open>field.file.syntax\<close>.
\<close>

record field_descriptor =
  name :: string
  camelcase_name :: string
  json_name :: string
  cpp_type :: cpp_type
  type :: field_type
  label :: label
  message_type :: "string option"
  enum_type :: "enum_descriptor option"
  has_options :: bool
  deprecated :: bool
  has_presence :: bool
  file_syntax :: proto_syntax

text \<open>
  The descriptor graph: every message type's full name with its ordered field list.
  A descriptor is identified with its full name (\<^verbatim>\<open>descriptor_.full_name\<close>).
\<close>

type_synonym descriptor_pool = "(string \<times> field_descriptor list) list"

section \<open>Spark types\<close>

datatype data_type =
  StringType | BinaryType | BooleanType | DoubleType | FloatType | IntegerType | LongType
| TimestampType | DecimalType nat nat
| ArrayType data_type bool
| StructType "struct_field list"
and struct_field = StructField string data_type bool

text \<open>\<^verbatim>\<open>_MESSAGETYPE_TO_SPARK_TYPE_MAP\<close> (lines 40-55).\<close>

definition MESSAGETYPE_TO_SPARK_TYPE_MAP :: "string \<rightharpoonup> data_type" where
  "MESSAGETYPE_TO_SPARK_TYPE_MAP = map_of
     [(''google.protobuf.Timestamp'', StringType),
      (''google.protobuf.Duration'', StringType),
      (''google.protobuf.DoubleValue'', DoubleType),
      (''google.protobuf.FloatValue'', FloatType),
      (''google.protobuf.Int64Value'', LongType),
      (''google.protobuf.UInt64Value'', LongType),
      (''google.protobuf.Int32Value'', IntegerType),
      (''google.protobuf.UInt32Value'', LongType),
      (''google.protobuf.BoolValue'', BooleanType),
      (''google.protobuf.StringValue'', StringType),
      (''google.protobuf.BytesValue'', BinaryType)]"

text \<open>
  \<^verbatim>\<open>_CPPTYPE_TO_SPARK_TYPE_MAP\<close> (lines 62-72). The dict has no entry for
  \<^verbatim>\<open>CPPTYPE_MESSAGE\<close>: indexing it there is a KeyError.
\<close>

fun CPPTYPE_TO_SPARK_TYPE_MAP :: "cpp_type \<Rightarrow> data_type option" where
  "CPPTYPE_TO_SPARK_TYPE_MAP CPPTYPE_INT32 = Some IntegerType"
| "CPPTYPE_TO_SPARK_TYPE_MAP CPPTYPE_INT64 = Some LongType"
| "CPPTYPE_TO_SPARK_TYPE_MAP CPPTYPE_UINT32 = Some LongType"
| "CPPTYPE_TO_SPARK_TYPE_MAP CPPTYPE_UINT64 = Some LongType"
| "CPPTYPE_TO_SPARK_TYPE_MAP CPPTYPE_DOUBLE = Some DoubleType"
| "CPPTYPE_TO_SPARK_TYPE_MAP CPPTYPE_FLOAT = Some FloatType"
| "CPPTYPE_TO_SPARK_TYPE_MAP CPPTYPE_BOOL = Some BooleanType"
| "CPPTYPE_TO_SPARK_TYPE_MAP CPPTYPE_ENUM = Some StringType"
| "CPPTYPE_TO_SPARK_TYPE_MAP CPPTYPE_STRING = Some StringType"
| "CPPTYPE_TO_SPARK_TYPE_MAP CPPTYPE_MESSAGE = None"

section \<open>Python values and messages\<close>

text \<open>
  The native values that pass through the converter: what a message field holds and what
  a mapping holds. \<open>bytes\<close> and \<open>bytearray\<close> are both byte sequences (a \<open>char\<close> is a
  byte); a dict keeps its insertion order. A message object is its descriptor's full name
  and one slot per declared field, in declaration order, \<open>None\<close> while the field is unset.
  \<open>PyNative\<close> stands for any other Python object a custom serializer returns
  (a \<^verbatim>\<open>datetime\<close>, a \<^verbatim>\<open>Decimal\<close>), named by a tag and its state as integers.
\<close>

datatype py_value =
  PyNone
| PyBool bool
| PyInt int
| PyStr string
| PyBytes string
| PyBytearray string
| PyList "py_value list"
| PyDict "(string \<times> py_value) list"
| PyNative string "int list"
| PyMessage message
and message = Message (DESCRIPTOR: string) (slots: "py_value option list")

datatype error =
  AttributeError
| CircularDefinition string
| KeyError
| UnresolvedDescriptor string
| SerializeToJsonError
| ParseError string
| TypeError
| ValueError
| NotModelled string

section \<open>The converter and its override registry\<close>

type_synonym serializer = "message \<Rightarrow> error + py_value"
type_synonym deserializer = "py_value \<Rightarrow> message \<Rightarrow> string \<Rightarrow> error + message"

record message_converter =
  custom_serializers :: "string \<rightharpoonup> serializer"
  custom_deserializers :: "string \<rightharpoonup> deserializer"
  message_type_to_spark_type_map :: "string \<rightharpoonup> data_type"

text \<open>
  \<^verbatim>\<open>register_serializer\<close> (lines 157-170). The message class is identified by
  \<^verbatim>\<open>message.DESCRIPTOR.full_name\<close>, the only thing the method reads off it.
\<close>

definition register_serializer ::
  "string \<Rightarrow> serializer \<Rightarrow> data_type \<Rightarrow> message_converter \<Rightarrow> message_converter" where
  "register_serializer full_name serializer return_type self =
     self\<lparr>custom_serializers := (custom_serializers self)(full_name \<mapsto> serializer),
          message_type_to_spark_type_map :=
            (message_type_to_spark_type_map self)(full_name \<mapsto> return_type)\<rparr>"

text \<open>
  \<^verbatim>\<open>unregister_serializer\<close> (lines 172-179): both pops, then the built-in entry is
  put back when \<^verbatim>\<open>_MESSAGETYPE_TO_SPARK_TYPE_MAP\<close> has one.
\<close>

definition unregister_serializer :: "string \<Rightarrow> message_converter \<Rightarrow> message_converter" where
  "unregister_serializer full_name self =
     (let self1 = self\<lparr>custom_serializers := (custom_serializers self)(full_name := None),
                       message_type_to_spark_type_map :=
                         (message_type_to_spark_type_map self)(full_name := None)\<rparr>
      in case MESSAGETYPE_TO_SPARK_TYPE_MAP full_name of
           Some builtin \<Rightarrow>
             self1\<lparr>message_type_to_spark_type_map :=
                      (message_type_to_spark_type_map self1)(full_name \<mapsto> builtin)\<rparr>
         | None \<Rightarrow> self1)"

definition register_deserializer ::
  "string \<Rightarrow> deserializer \<Rightarrow> message_converter \<Rightarrow> message_converter" where
  "register_deserializer full_name deserializer self =
     self\<lparr>custom_deserializers := (custom_deserializers self)(full_name \<mapsto> deserializer)\<rparr>"

definition unregister_deserializer :: "string \<Rightarrow> message_converter \<Rightarrow> message_converter" where
  "unregister_deserializer full_name self =
     self\<lparr>custom_deserializers := (custom_deserializers self)(full_name := None)\<rparr>"

text \<open>
  The timestamp pair (lines 190-200). \<^verbatim>\<open>_to_datetime\<close> and \<^verbatim>\<open>_from_datetime\<close> come
  from \<^verbatim>\<open>pbspark/_timestamp.py\<close>, which is not among the sources: they are parameters.
\<close>

definition Timestamp :: string where
  "Timestamp = ''google.protobuf.Timestamp''"

definition register_timestamp_serializer :: "serializer \<Rightarrow> message_converter \<Rightarrow> message_converter" where
  "register_timestamp_serializer to_datetime self =
     register_serializer Timestamp to_datetime TimestampType self"

definition unregister_timestamp_serializer :: "message_converter \<Rightarrow> message_converter" where
  "unregister_timestamp_serializer self = unregister_serializer Timestamp self"

definition register_timestamp_deserializer :: "deserializer \<Rightarrow> message_converter \<Rightarrow> message_converter" where
  "register_timestamp_deserializer from_datetime self =
     register_deserializer Timestamp from_datetime self"

definition unregister_timestamp_deserializer :: "message_converter \<Rightarrow> message_converter" where
  "unregister_timestamp_deserializer self = unregister_deserializer Timestamp self"

text \<open>\<^verbatim>\<open>MessageConverter.__init__\<close> (lines 150-155).\<close>

definition MessageConverter :: "serializer \<Rightarrow> deserializer \<Rightarrow> message_converter" where
  "MessageConverter to_datetime from_datetime =
     register_timestamp_deserializer from_datetime
       (register_timestamp_serializer to_datetime
          \<lparr>custom_serializers = Map.empty,
           custom_deserializers = Map.empty,
           message_type_to_spark_type_map = MESSAGETYPE_TO_SPARK_TYPE_MAP\<rparr>)"

section \<open>Schema derivation\<close>

text \<open>The three keys \<^verbatim>\<open>get_spark_schema\<close> reads off its \<^verbatim>\<open>options\<close> dict (lines 255-258).\<close>

record schema_options =
  preserving_proto_field_name :: bool
  ignore_deprecated :: bool
  ignore_circular_definitions :: bool

definition default_options :: schema_options where
  "default_options = \<lparr>preserving_proto_field_name = False, ignore_deprecated = False,
                       ignore_circular_definitions = False\<rparr>"

text \<open>
  \<^verbatim>\<open>x.full_name\<close> where \<^verbatim>\<open>x\<close> is \<^verbatim>\<open>field.message_type\<close>: an AttributeError on
  \<^verbatim>\<open>None\<close>.
\<close>

fun full_name_of :: "string option \<Rightarrow> error + string" where
  "full_name_of None = Inl AttributeError"
| "full_name_of (Some n) = Inr n"

definition pool_names :: "descriptor_pool \<Rightarrow> string set" where
  "pool_names pool = fst ` set pool"

text \<open>
  \<^verbatim>\<open>get_spark_schema\<close> (lines 241-309), its loop over \<^verbatim>\<open>descriptor_.fields\<close>
  (line 271, and lines 308-309 for what is made of the list) and the loop's body
  (lines 272-307). The body raises (\<open>Inl\<close>), goes on to the next field without
  appending (\<^verbatim>\<open>continue\<close>: \<open>Inr None\<close>) or appends one entry to \<^verbatim>\<open>schema\<close>
  (\<open>Inr (Some entry)\<close>); the loop returns the list \<^verbatim>\<open>schema\<close>, or the first exception
  raised. \<^verbatim>\<open>_seen_descriptors\<close> is \<^verbatim>\<open>None\<close> or a set; the callee copies it before
  adding to it (line 253), so the caller's set is the one passed down, unchanged.
  A name the pool does not hold has no Python counterpart (there the Descriptor object
  itself is at hand); the model answers \<open>UnresolvedDescriptor\<close>.
\<close>

function get_spark_schema ::
    "message_converter \<Rightarrow> descriptor_pool \<Rightarrow> schema_options \<Rightarrow> string set option \<Rightarrow> string
      \<Rightarrow> error + data_type"
  and schema_fields ::
    "message_converter \<Rightarrow> descriptor_pool \<Rightarrow> schema_options \<Rightarrow> string set
      \<Rightarrow> field_descriptor list \<Rightarrow> error + struct_field list"
  and schema_field ::
    "message_converter \<Rightarrow> descriptor_pool \<Rightarrow> schema_options \<Rightarrow> string set
      \<Rightarrow> field_descriptor \<Rightarrow> error + struct_field option"
where
  "get_spark_schema self pool options seen_descriptors descriptor =
     (let seen_descriptors' = insert descriptor
            (case seen_descriptors of None \<Rightarrow> {} | Some s \<Rightarrow> s)
      in case message_type_to_spark_type_map self descriptor of
           Some spark_type \<Rightarrow> Inr spark_type
         | None \<Rightarrow>
            (case map_of pool descriptor of
               None \<Rightarrow> Inl (UnresolvedDescriptor descriptor)
             | Some fields' \<Rightarrow>
                (case schema_fields self pool options seen_descriptors' fields' of
                   Inl e \<Rightarrow> Inl e
                 | Inr schema \<Rightarrow> Inr (StructType schema))))"
| "schema_fields self pool options seen_descriptors' [] = Inr []"
| "schema_fields self pool options seen_descriptors' (field # fields') =
     (case schema_field self pool options seen_descriptors' field of
        Inl e \<Rightarrow> Inl e
      | Inr None \<Rightarrow> schema_fields self pool options seen_descriptors' fields'
      | Inr (Some entry) \<Rightarrow>
         (case schema_fields self pool options seen_descriptors' fields' of
            Inl e \<Rightarrow> Inl e
          | Inr schema \<Rightarrow> Inr (entry # schema)))"
| "schema_field self pool options seen_descriptors' field =
     (case full_name_of (message_type field) of
        Inl e \<Rightarrow> Inl e
      | Inr field_full_name \<Rightarrow>
         if has_options field \<and> deprecated field \<and> ignore_deprecated options
         then Inr None
         else if message_type field \<noteq> None \<and> field_full_name \<in> seen_descriptors'
         then (if ignore_circular_definitions options
               then Inr None
               else Inl (CircularDefinition field_full_name))
         else
          (case
             (if cpp_type field = CPPTYPE_MESSAGE
              then (case full_name_of (message_type field) of
                      Inl e \<Rightarrow> Inl e
                    | Inr full_name \<Rightarrow>
                       (case message_type_to_spark_type_map self full_name of
                          Some spark_type \<Rightarrow> Inr spark_type
                        | None \<Rightarrow>
                           get_spark_schema self pool options (Some seen_descriptors') full_name))
              else if cpp_type field = CPPTYPE_STRING \<and> type field = TYPE_BYTES
              then Inr BinaryType
              else (case CPPTYPE_TO_SPARK_TYPE_MAP (cpp_type field) of
                      None \<Rightarrow> Inl KeyError
                    | Some spark_type \<Rightarrow> Inr spark_type))
           of
             Inl e \<Rightarrow> Inl e
           | Inr spark_type \<Rightarrow>
              (let spark_type' = (if label field = LABEL_REPEATED
                                  then ArrayType spark_type True else spark_type);
                   field_name = (if \<not> preserving_proto_field_name options
                                 then camelcase_name field else name field)
               in Inr (Some (StructField field_name spark_type' True)))))"
  by pat_completeness auto

lemma pool_names_finite: "finite (pool_names pool)"
  by (simp add: pool_names_def)

lemma map_of_pool_names: "map_of pool d = Some fs \<Longrightarrow> d \<in> pool_names pool"
  by (auto simp: pool_names_def dest: map_of_SomeD intro: rev_image_eqI)

lemma card_unseen_insert:
  "d \<in> pool_names pool \<Longrightarrow> d \<notin> seen \<Longrightarrow>
     card (pool_names pool - insert d seen) < card (pool_names pool - seen)"
  by (rule psubset_card_mono) (auto simp: pool_names_finite)

text \<open>
  Every recursive call expands a name of the pool that is not yet in the seen set, so
  the number of unseen names of the pool decreases.
\<close>

termination get_spark_schema
proof (relation "measures
    [\<lambda>x. case x of
        Inl (self, pool, options, seen_descriptors, descriptor) \<Rightarrow>
          (if descriptor \<in> pool_names pool
           then card (pool_names pool - insert descriptor
                  (case seen_descriptors of None \<Rightarrow> {} | Some s \<Rightarrow> s)) + 1
           else 0)
      | Inr (Inl (self, pool, options, seen, fs)) \<Rightarrow> card (pool_names pool - seen) + 1
      | Inr (Inr (self, pool, options, seen, f)) \<Rightarrow> card (pool_names pool - seen) + 1,
     \<lambda>x. case x of Inl _ \<Rightarrow> 1 | Inr _ \<Rightarrow> 0,
     \<lambda>x. case x of Inl _ \<Rightarrow> 0
        | Inr (Inl (self, pool, options, seen, fs)) \<Rightarrow> length fs + 1
        | Inr (Inr _) \<Rightarrow> 0]",
    goal_cases)
  case 1
  show ?case by simp
next
  case (2 self pool options seen_descriptors descriptor x2)
  then show ?case by (auto dest: map_of_pool_names)
next
  case 3
  then show ?case by simp
next
  case 4
  then show ?case by simp
next
  case 5
  then show ?case by simp
next
  case (6 self pool options seen field b ba)
  from 6 have "b \<notin> seen" "ba = b" by auto
  then show ?case
    using card_unseen_insert [of ba pool seen] by auto
qed

declare get_spark_schema.simps [simp del]
declare schema_field.simps [simp del]

section \<open>The protobuf runtime's printer and parser, and the overrides of pbspark\<close>

text \<open>
  Modelled from the spec: the protobuf runtime (\<^verbatim>\<open>google.protobuf.json_format\<close>, the
  message classes) is not among the sources. Sections 4.5, 4.6 and 6 of the spec describe
  what its printer and parser do for a message: every populated field, in field order
  (and then every declared field, if \<^verbatim>\<open>including_default_value_fields\<close> is set),
  under its JSON name or its declared name; nested messages recursively; enums by name;
  name-matching assignment on the way back, bounded by \<^verbatim>\<open>max_recursion_depth\<close>. The
  definitions whose names start with \<open>super_\<close>, and the helpers they use, are that
  model; \<^verbatim>\<open>_Printer\<close>, \<^verbatim>\<open>_Parser\<close>, \<^verbatim>\<open>_handle_bytes\<close> and
  \<^verbatim>\<open>_patched_convert_scalar_field_value\<close> are translated from \<^verbatim>\<open>_proto.py\<close>.
  The model covers regular messages with scalar, enum, message and repeated fields: it
  has no floating-point values, map fields, oneofs or extensions, and it answers
  \<open>NotModelled\<close> for the message types the runtime converts by methods of their own
  (\<open>WELL_KNOWN\<close>) and for inputs whose conversion it does not describe.
\<close>

text \<open>
  \<^verbatim>\<open>message.ListFields()\<close>: the populated fields with their values, in field order.
  \<open>dict_set js k v\<close> is \<^verbatim>\<open>js[k] = v\<close> on an insertion-ordered dict.
\<close>

fun ListFields :: "field_descriptor list \<Rightarrow> py_value option list \<Rightarrow> (field_descriptor \<times> py_value) list" where
  "ListFields (f # fs) (Some v # ss) = (f, v) # ListFields fs ss"
| "ListFields (f # fs) (None # ss) = ListFields fs ss"
| "ListFields fs ss = []"

fun dict_set :: "(string \<times> 'v) list \<Rightarrow> string \<Rightarrow> 'v \<Rightarrow> (string \<times> 'v) list" where
  "dict_set [] k v = [(k, v)]"
| "dict_set ((k', v') # js) k v = (if k' = k then (k, v) # js else (k', v') # dict_set js k v)"

text \<open>
\<^verbatim>\<open>json_format._INT64_TYPES\<close>, read at line 97.
\<close>

definition INT64_TYPES :: "cpp_type set" where
  "INT64_TYPES = {CPPTYPE_INT64, CPPTYPE_UINT64}"

text \<open>
  The types \<^verbatim>\<open>json_format\<close> converts by methods of their own: the keys of
  \<^verbatim>\<open>_WKTJSONMETHODS\<close> and the wrapper types.
\<close>

definition WELL_KNOWN :: "string set" where
  "WELL_KNOWN = {''google.protobuf.Any'', ''google.protobuf.Duration'',
     ''google.protobuf.FieldMask'', ''google.protobuf.ListValue'', ''google.protobuf.Struct'',
     ''google.protobuf.Timestamp'', ''google.protobuf.Value'',
     ''google.protobuf.DoubleValue'', ''google.protobuf.FloatValue'',
     ''google.protobuf.Int64Value'', ''google.protobuf.UInt64Value'',
     ''google.protobuf.Int32Value'', ''google.protobuf.UInt32Value'',
     ''google.protobuf.BoolValue'', ''google.protobuf.StringValue'',
     ''google.protobuf.BytesValue''}"

text \<open>
  The attributes of a \<^verbatim>\<open>_Printer\<close> (lines 79-81): the custom serializers, and what
  the runtime's constructor keeps of the keyword arguments it is passed. The runtime
  reads \<^verbatim>\<open>float_format\<close> for floating-point fields and \<^verbatim>\<open>descriptor_pool\<close> for
  \<^verbatim>\<open>Any\<close> messages only, neither of which the model has.
\<close>

record printer =
  printer_custom_serializers :: "string \<rightharpoonup> serializer"
  including_default_value_fields :: bool
  printer_preserving_proto_field_name :: bool
  use_integers_for_enums :: bool
  printer_descriptor_pool :: "descriptor_pool option"
  float_format :: "string option"

text \<open>
  The default value of a field (\<^verbatim>\<open>field.default_value\<close>), for the scalar fields of a
  file that declares no default of its own: the zero of the field's type.
\<close>

definition zero_value :: "field_descriptor \<Rightarrow> py_value" where
  "zero_value field =
     (if cpp_type field = CPPTYPE_BOOL then PyBool False
      else if cpp_type field = CPPTYPE_STRING
      then (if type field = TYPE_BYTES then PyBytes [] else PyStr [])
      else PyInt 0)"

fun values_by_number :: "(string \<times> int) list \<Rightarrow> int \<Rightarrow> string option" where
  "values_by_number [] n = None"
| "values_by_number ((nm, k) # vs) n = (if k = n then Some nm else values_by_number vs n)"

fun py_bool :: "py_value \<Rightarrow> bool" where
  "py_bool PyNone = False"
| "py_bool (PyBool b) = b"
| "py_bool (PyInt n) = (n \<noteq> 0)"
| "py_bool (PyStr s) = (s \<noteq> [])"
| "py_bool (PyBytes s) = (s \<noteq> [])"
| "py_bool (PyBytearray s) = (s \<noteq> [])"
| "py_bool (PyList vs) = (vs \<noteq> [])"
| "py_bool (PyDict kvs) = (kvs \<noteq> [])"
| "py_bool (PyNative tag state) = True"
| "py_bool (PyMessage m) = True"

text \<open>
\<^verbatim>\<open>str(n)\<close> of an integer and \<^verbatim>\<open>base64.b64encode\<close>, which the runtime's printer applies
  to 64-bit integers and to byte strings.
\<close>

fun digits :: "nat \<Rightarrow> nat \<Rightarrow> string" where
  "digits 0 n = []"
| "digits (Suc fuel) n =
     (if n < 10 then [''0123456789'' ! n]
      else digits fuel (n div 10) @ [''0123456789'' ! (n mod 10)])"

definition str_nat :: "nat \<Rightarrow> string" where
  "str_nat n = digits (Suc n) n"

definition str_int :: "int \<Rightarrow> string" where
  "str_int n = (if n < 0 then CHR ''-'' # str_nat (nat (- n)) else str_nat (nat n))"

definition b64_digit :: "nat \<Rightarrow> char" where
  "b64_digit i = ''ABCDEFGHIJKLMNOPQRSTUVWXYZabcdefghijklmnopqrstuvwxyz0123456789+/'' ! i"

fun b64encode :: "string \<Rightarrow> string" where
  "b64encode (a # b # c # rest) =
     (let n = (of_char a :: nat) * 65536 + of_char b * 256 + of_char c
      in b64_digit (n div 262144) # b64_digit (n div 4096 mod 64) #
         b64_digit (n div 64 mod 64) # b64_digit (n mod 64) # b64encode rest)"
| "b64encode [a, b] =
     (let n = (of_char a :: nat) * 1024 + of_char b * 4
      in [b64_digit (n div 4096), b64_digit (n div 64 mod 64), b64_digit (n mod 64), CHR ''=''])"
| "b64encode [a] =
     (let n = (of_char a :: nat) * 16
      in [b64_digit (n div 64), b64_digit (n mod 64), CHR ''='', CHR ''=''])"
| "b64encode [] = []"

text \<open>
  \<^verbatim>\<open>_Printer._MessageToJsonObject\<close> (lines 83-87) and \<^verbatim>\<open>_Printer._FieldToJsonObject\<close>
  (lines 89-99), with the methods of the runtime they fall back to:
  \<^verbatim>\<open>_RegularMessageToJsonObject\<close> as the loop over \<^verbatim>\<open>ListFields()\<close> that fills \<^verbatim>\<open>js\<close>
  followed, when \<^verbatim>\<open>including_default_value_fields\<close> is set, by the loop over the
  descriptor's fields that adds the default of every field not yet in \<^verbatim>\<open>js\<close> (a
  singular message field has none), and the list comprehension of a repeated field.
\<close>

function MessageToJsonObject :: "printer \<Rightarrow> descriptor_pool \<Rightarrow> message \<Rightarrow> error + py_value"
  and super_MessageToJsonObject :: "printer \<Rightarrow> descriptor_pool \<Rightarrow> message \<Rightarrow> error + py_value"
  and RegularMessageToJsonObject ::
    "printer \<Rightarrow> descriptor_pool \<Rightarrow> field_descriptor list \<Rightarrow> (field_descriptor \<times> py_value) list
       \<Rightarrow> (string \<times> py_value) list \<Rightarrow> error + py_value"
  and default_value_fields ::
    "printer \<Rightarrow> descriptor_pool \<Rightarrow> field_descriptor list \<Rightarrow> (string \<times> py_value) list
       \<Rightarrow> error + py_value"
  and repeated_to_json ::
    "printer \<Rightarrow> descriptor_pool \<Rightarrow> field_descriptor \<Rightarrow> py_value list \<Rightarrow> error + py_value list"
  and FieldToJsonObject ::
    "printer \<Rightarrow> descriptor_pool \<Rightarrow> field_descriptor \<Rightarrow> py_value \<Rightarrow> error + py_value"
  and super_FieldToJsonObject ::
    "printer \<Rightarrow> descriptor_pool \<Rightarrow> field_descriptor \<Rightarrow> py_value \<Rightarrow> error + py_value"
where
  "MessageToJsonObject self pool message =
     (let full_name = DESCRIPTOR message
      in case printer_custom_serializers self full_name of
           Some serializer \<Rightarrow> serializer message
         | None \<Rightarrow> super_MessageToJsonObject self pool message)"
| "super_MessageToJsonObject self pool message =
     (if DESCRIPTOR message \<in> WELL_KNOWN then Inl (NotModelled (DESCRIPTOR message))
      else case map_of pool (DESCRIPTOR message) of
             None \<Rightarrow> Inl (UnresolvedDescriptor (DESCRIPTOR message))
           | Some fields' \<Rightarrow>
               RegularMessageToJsonObject self pool fields'
                 (ListFields fields' (slots message)) [])"
| "RegularMessageToJsonObject self pool fields' [] js =
     (if including_default_value_fields self then default_value_fields self pool fields' js
      else Inr (PyDict js))"
| "RegularMessageToJsonObject self pool fields' ((field, value) # rest) js =
     (let name' = (if printer_preserving_proto_field_name self
                   then name field else json_name field)
      in case (if label field = LABEL_REPEATED
               then (case value of
                       PyList ks \<Rightarrow>
                        (case repeated_to_json self pool field ks of
                           Inl e \<Rightarrow> Inl e
                         | Inr vs \<Rightarrow> Inr (PyList vs))
                     | _ \<Rightarrow> Inl TypeError)
               else FieldToJsonObject self pool field value)
         of
           Inl e \<Rightarrow> Inl e
         | Inr v \<Rightarrow> RegularMessageToJsonObject self pool fields' rest (dict_set js name' v))"
| "default_value_fields self pool [] js = Inr (PyDict js)"
| "default_value_fields self pool (field # rest) js =
     (if label field \<noteq> LABEL_REPEATED \<and> cpp_type field = CPPTYPE_MESSAGE
      then default_value_fields self pool rest js
      else
       (let name' = (if printer_preserving_proto_field_name self
                     then name field else json_name field)
        in if name' \<in> fst ` set js then default_value_fields self pool rest js
           else if label field = LABEL_REPEATED
           then default_value_fields self pool rest (dict_set js name' (PyList []))
           else case FieldToJsonObject self pool field (zero_value field) of
                  Inl e \<Rightarrow> Inl e
                | Inr v \<Rightarrow> default_value_fields self pool rest (dict_set js name' v)))"
| "repeated_to_json self pool field [] = Inr []"
| "repeated_to_json self pool field (k # ks) =
     (case FieldToJsonObject self pool field k of
        Inl e \<Rightarrow> Inl e
      | Inr v \<Rightarrow>
         (case repeated_to_json self pool field ks of
            Inl e \<Rightarrow> Inl e
          | Inr vs \<Rightarrow> Inr (v # vs)))"
| "FieldToJsonObject self pool field value =
     (if cpp_type field = CPPTYPE_STRING \<and> type field = TYPE_BYTES then Inr value
      else if cpp_type field \<in> INT64_TYPES then Inr value
      else super_FieldToJsonObject self pool field value)"
| "super_FieldToJsonObject self pool field value =
     (if cpp_type field = CPPTYPE_MESSAGE
      then (case value of
              PyMessage m \<Rightarrow> MessageToJsonObject self pool m
            | _ \<Rightarrow> Inl AttributeError)
      else if cpp_type field = CPPTYPE_ENUM
      then (if use_integers_for_enums self then Inr value
            else case enum_type field of
                   None \<Rightarrow> Inl AttributeError
                 | Some enum \<Rightarrow>
                    if enum_full_name enum = ''google.protobuf.NullValue'' then Inr PyNone
                    else (case value of
                            PyInt n \<Rightarrow>
                             (case values_by_number (enum_values enum) n of
                                Some nm \<Rightarrow> Inr (PyStr nm)
                              | None \<Rightarrow>
                                 if file_syntax field = Proto3 then Inr value
                                 else Inl SerializeToJsonError)
                          | _ \<Rightarrow> Inl (NotModelled ''enum value'')))
      else if cpp_type field = CPPTYPE_STRING
      then (if type field = TYPE_BYTES
            then (case value of
                    PyBytes b \<Rightarrow> Inr (PyStr (b64encode b))
                  | _ \<Rightarrow> Inl TypeError)
            else Inr value)
      else if cpp_type field = CPPTYPE_BOOL then Inr (PyBool (py_bool value))
      else if cpp_type field \<in> INT64_TYPES
      then (case value of
              PyInt n \<Rightarrow> Inr (PyStr (str_int n))
            | _ \<Rightarrow> Inl (NotModelled ''str''))
      else Inr value)"
  by pat_completeness auto
lemma ListFields_size:
  "(\<Sum>(f, v)\<leftarrow>ListFields fs ss. Suc (size v)) \<le> size_list (size_option size) ss"
  by (induction fs ss rule: ListFields.induct) simp_all

lemma ListFields_size_message:
  "(\<Sum>(f, v)\<leftarrow>ListFields fs (slots message). Suc (size v)) < size message"
  using ListFields_size [of fs "slots message"] by (cases message) simp

lemma zero_value_size: "size (zero_value field) = 0"
  by (simp add: zero_value_def)

termination MessageToJsonObject
  by (relation "measures
    [\<lambda>x. case x of
        Inl (Inl (self, pool, m)) \<Rightarrow> size m
      | Inl (Inr (Inl (self, pool, m))) \<Rightarrow> size m
      | Inl (Inr (Inr (self, pool, fs, fvs, js))) \<Rightarrow> (\<Sum>(f, v)\<leftarrow>fvs. Suc (size v))
      | Inr (Inl (Inl (self, pool, fs, js))) \<Rightarrow> 0
      | Inr (Inl (Inr (self, pool, f, ks))) \<Rightarrow> size_list size ks
      | Inr (Inr (Inl (self, pool, f, v))) \<Rightarrow> size v
      | Inr (Inr (Inr (self, pool, f, v))) \<Rightarrow> size v,
     \<lambda>x. case x of
        Inl (Inl _) \<Rightarrow> 1
      | Inl (Inr (Inl _)) \<Rightarrow> 0
      | Inl (Inr (Inr _)) \<Rightarrow> 3
      | Inr (Inl (Inl _)) \<Rightarrow> 2
      | Inr (Inl (Inr _)) \<Rightarrow> 0
      | Inr (Inr (Inl _)) \<Rightarrow> 1
      | Inr (Inr (Inr _)) \<Rightarrow> (0::nat),
     \<lambda>x. case x of
        Inr (Inl (Inl (self, pool, fs, js))) \<Rightarrow> length fs
      | _ \<Rightarrow> 0]")
     (simp_all add: ListFields_size_message zero_value_size)

section \<open>Decoding\<close>

text \<open>
  The state a parse runs in: the attribute \<^verbatim>\<open>json_format._ConvertScalarFieldValue\<close> of
  the runtime's module, which lines 137-143 rebind, and the parser's own
  \<^verbatim>\<open>recursion_depth\<close>. The other attributes of a \<^verbatim>\<open>_Parser\<close> (lines 105-107) do not
  change (\<^verbatim>\<open>descriptor_pool\<close> is not modelled).
\<close>

type_synonym scalar_converter =
  "py_value \<Rightarrow> field_descriptor \<Rightarrow> string \<Rightarrow> bool \<Rightarrow> error + py_value"

record parse_state =
  ConvertScalarFieldValue_attr :: scalar_converter
  recursion_depth :: int

record parser =
  parser_custom_deserializers :: "string \<rightharpoonup> deserializer"
  ignore_unknown_fields :: bool
  max_recursion_depth :: int

text \<open>
\<^verbatim>\<open>bytes(value)\<close> (line 127).
\<close>

fun list_bytes :: "py_value list \<Rightarrow> error + string" where
  "list_bytes [] = Inr []"
| "list_bytes (PyInt n # vs) =
     (if 0 \<le> n \<and> n < 256
      then (case list_bytes vs of Inl e \<Rightarrow> Inl e | Inr bs \<Rightarrow> Inr (char_of n # bs))
      else Inl ValueError)"
| "list_bytes (PyBool b # vs) =
     (case list_bytes vs of Inl e \<Rightarrow> Inl e | Inr bs \<Rightarrow> Inr (char_of (of_bool b :: int) # bs))"
| "list_bytes (v # vs) = Inl TypeError"

fun py_bytes :: "py_value \<Rightarrow> error + py_value" where
  "py_bytes (PyBytes b) = Inr (PyBytes b)"
| "py_bytes (PyBytearray b) = Inr (PyBytes b)"
| "py_bytes (PyInt n) = (if n < 0 then Inl ValueError else Inr (PyBytes (replicate (nat n) (CHR 0x00))))"
| "py_bytes (PyBool b) = Inr (PyBytes (replicate (if b then 1 else 0) (CHR 0x00)))"
| "py_bytes (PyList vs) = (case list_bytes vs of Inl e \<Rightarrow> Inl e | Inr bs \<Rightarrow> Inr (PyBytes bs))"
| "py_bytes (PyDict kvs) = (if kvs = [] then Inr (PyBytes []) else Inl TypeError)"
| "py_bytes (PyStr s) = Inl TypeError"
| "py_bytes PyNone = Inl TypeError"
| "py_bytes (PyNative tag state) = Inl (NotModelled ''bytes'')"
| "py_bytes (PyMessage m) = Inl TypeError"

text \<open>
  \<^verbatim>\<open>_handle_bytes\<close> (lines 120-130) and the context manager
  \<^verbatim>\<open>_patched_convert_scalar_field_value\<close> (lines 133-143): \<open>body\<close> is the block under
  \<^verbatim>\<open>with\<close>; its result \<open>r\<close> is a value or the exception it raised, and the
  \<^verbatim>\<open>finally\<close> clause runs in both cases.
\<close>

definition handle_bytes :: "scalar_converter \<Rightarrow> scalar_converter" where
  "handle_bytes func =
     (\<lambda>value field path require_str.
        if cpp_type field = CPPTYPE_STRING \<and> type field = TYPE_BYTES
        then py_bytes value
        else func value field path require_str)"

definition patched_convert_scalar_field_value ::
  "(parse_state \<Rightarrow> 'a \<times> parse_state) \<Rightarrow> parse_state \<Rightarrow> 'a \<times> parse_state" where
  "patched_convert_scalar_field_value body st =
     (let convert_scalar_field_value_func = ConvertScalarFieldValue_attr st;
          st1 = st\<lparr>ConvertScalarFieldValue_attr :=
                      handle_bytes (ConvertScalarFieldValue_attr st)\<rparr>;
          (r, st2) = body st1
      in (r, st2\<lparr>ConvertScalarFieldValue_attr := convert_scalar_field_value_func\<rparr>))"

lemma patched_convert_scalar_field_value_cong [fundef_cong]:
  "st = st' \<Longrightarrow> (\<And>s. body s = body' s) \<Longrightarrow>
     patched_convert_scalar_field_value body st = patched_convert_scalar_field_value body' st'"
  by (simp add: patched_convert_scalar_field_value_def)

text \<open>
  The runtime's \<^verbatim>\<open>_ConvertScalarFieldValue\<close> as it is before any patch, with
  \<^verbatim>\<open>_ConvertInteger\<close> and \<^verbatim>\<open>_ConvertBool\<close>.
\<close>

definition INT_TYPES :: "cpp_type set" where
  "INT_TYPES = {CPPTYPE_INT32, CPPTYPE_UINT32, CPPTYPE_INT64, CPPTYPE_UINT64}"

definition FLOAT_TYPES :: "cpp_type set" where
  "FLOAT_TYPES = {CPPTYPE_FLOAT, CPPTYPE_DOUBLE}"

fun ConvertInteger :: "py_value \<Rightarrow> error + py_value" where
  "ConvertInteger (PyInt n) = Inr (PyInt n)"
| "ConvertInteger (PyBool b) = Inl (ParseError ''Bool value not allowed'')"
| "ConvertInteger (PyStr s) = Inl (NotModelled ''int of str'')"
| "ConvertInteger (PyBytes s) = Inl (NotModelled ''int of bytes'')"
| "ConvertInteger (PyBytearray s) = Inl (NotModelled ''int of bytes'')"
| "ConvertInteger (PyNative tag state) = Inl (NotModelled ''int of object'')"
| "ConvertInteger v = Inl TypeError"

fun ConvertBool :: "py_value \<Rightarrow> bool \<Rightarrow> error + py_value" where
  "ConvertBool value True =
     (if value = PyStr ''true'' then Inr (PyBool True)
      else if value = PyStr ''false'' then Inr (PyBool False)
      else Inl (ParseError ''Expected true or false in quotes''))"
| "ConvertBool (PyBool b) False = Inr (PyBool b)"
| "ConvertBool v False = Inl (ParseError ''Expected true or false without quotes'')"

fun values_by_name :: "(string \<times> int) list \<Rightarrow> string \<Rightarrow> int option" where
  "values_by_name [] n = None"
| "values_by_name ((nm, k) # vs) n = (if nm = n then Some k else values_by_name vs n)"

fun ConvertEnum :: "field_descriptor \<Rightarrow> enum_descriptor \<Rightarrow> py_value \<Rightarrow> error + py_value" where
  "ConvertEnum field enum (PyStr s) =
     (case values_by_name (enum_values enum) s of
        Some number \<Rightarrow> Inr (PyInt number)
      | None \<Rightarrow> Inl (NotModelled ''int of str''))"
| "ConvertEnum field enum (PyInt number) =
     (case values_by_number (enum_values enum) number of
        Some nm \<Rightarrow> Inr (PyInt number)
      | None \<Rightarrow>
         if file_syntax field = Proto3 then Inr (PyInt number)
         else Inl (ParseError ''Invalid enum value''))"
| "ConvertEnum field enum v = Inl (NotModelled ''enum value'')"

definition ConvertScalarFieldValue :: scalar_converter where
  "ConvertScalarFieldValue value field path require_str =
     (if cpp_type field \<in> INT_TYPES then ConvertInteger value
      else if cpp_type field \<in> FLOAT_TYPES then Inl (NotModelled ''float'')
      else if cpp_type field = CPPTYPE_BOOL then ConvertBool value require_str
      else if cpp_type field = CPPTYPE_STRING
      then (if type field = TYPE_BYTES then Inl (NotModelled ''base64'')
            else (case value of PyStr s \<Rightarrow> Inr value | _ \<Rightarrow> Inl TypeError))
      else if cpp_type field = CPPTYPE_ENUM
      then (case enum_type field of
              None \<Rightarrow> Inl AttributeError
            | Some enum \<Rightarrow> ConvertEnum field enum value)
      else Inr PyNone)"

text \<open>
  Assignment to a field of a message: the runtime's type and range check of the value,
  implicit presence (a field without presence that holds its zero value is unset), the
  sub-message of a message-typed field, and the lookup of a field by the key of a mapping
  (\<^verbatim>\<open>fields_by_json_name\<close>, then \<^verbatim>\<open>fields_by_name\<close>).
\<close>

definition int_range :: "field_descriptor \<Rightarrow> int \<times> int" where
  "int_range field =
     (if cpp_type field = CPPTYPE_INT64 then (- (2 ^ 63), 2 ^ 63 - 1)
      else if cpp_type field = CPPTYPE_UINT64 then (0, 2 ^ 64 - 1)
      else if cpp_type field = CPPTYPE_UINT32 then (0, 2 ^ 32 - 1)
      else (- (2 ^ 31), 2 ^ 31 - 1))"

definition CheckValue :: "field_descriptor \<Rightarrow> py_value \<Rightarrow> error + py_value" where
  "CheckValue field proposed_value =
     (if cpp_type field \<in> INT_TYPES
      then (case proposed_value of
              PyInt n \<Rightarrow>
               if fst (int_range field) \<le> n \<and> n \<le> snd (int_range field)
               then Inr (PyInt n) else Inl ValueError
            | PyBool b \<Rightarrow> Inr (PyInt (of_bool b))
            | _ \<Rightarrow> Inl TypeError)
      else if cpp_type field = CPPTYPE_BOOL
      then (case proposed_value of
              PyBool b \<Rightarrow> Inr (PyBool b)
            | PyInt n \<Rightarrow> Inr (PyBool (n \<noteq> 0))
            | _ \<Rightarrow> Inl TypeError)
      else if cpp_type field = CPPTYPE_STRING
      then (if type field = TYPE_BYTES
            then (case proposed_value of PyBytes b \<Rightarrow> Inr (PyBytes b) | _ \<Rightarrow> Inl TypeError)
            else (case proposed_value of
                    PyStr s \<Rightarrow> Inr (PyStr s)
                  | PyBytes b \<Rightarrow> Inl (NotModelled ''utf-8'')
                  | _ \<Rightarrow> Inl TypeError))
      else if cpp_type field = CPPTYPE_ENUM
      then (case proposed_value of
              PyInt n \<Rightarrow>
               (case enum_type field of
                  None \<Rightarrow> Inl AttributeError
                | Some enum \<Rightarrow>
                   if file_syntax field = Proto3
                   then (if - (2 ^ 31) \<le> n \<and> n \<le> 2 ^ 31 - 1 then Inr (PyInt n)
                         else Inl ValueError)
                   else (case values_by_number (enum_values enum) n of
                           Some nm \<Rightarrow> Inr (PyInt n) | None \<Rightarrow> Inl ValueError))
            | _ \<Rightarrow> Inl TypeError)
      else Inl (NotModelled ''float''))"

definition ClearField :: "message \<Rightarrow> nat \<Rightarrow> message" where
  "ClearField message i = Message (DESCRIPTOR message) ((slots message)[i := None])"

definition set_slot :: "message \<Rightarrow> nat \<Rightarrow> py_value \<Rightarrow> message" where
  "set_slot message i v = Message (DESCRIPTOR message) ((slots message)[i := Some v])"

definition setattr :: "message \<Rightarrow> nat \<Rightarrow> field_descriptor \<Rightarrow> py_value \<Rightarrow> error + message" where
  "setattr message i field value =
     (case CheckValue field value of
        Inl e \<Rightarrow> Inl e
      | Inr v \<Rightarrow>
         if \<not> has_presence field \<and> v = zero_value field
         then Inr (ClearField message i)
         else Inr (set_slot message i v))"

definition new_message :: "descriptor_pool \<Rightarrow> string \<Rightarrow> error + message" where
  "new_message pool full_name =
     (case map_of pool full_name of
        None \<Rightarrow> Inl (UnresolvedDescriptor full_name)
      | Some fields' \<Rightarrow> Inr (Message full_name (replicate (length fields') None)))"

definition get_sub_message ::
  "descriptor_pool \<Rightarrow> message \<Rightarrow> nat \<Rightarrow> field_descriptor \<Rightarrow> error + message" where
  "get_sub_message pool message i field =
     (case (if i < length (slots message) then slots message ! i else None) of
        Some (PyMessage m) \<Rightarrow> Inr m
      | _ \<Rightarrow>
         (case full_name_of (message_type field) of
            Inl e \<Rightarrow> Inl e
          | Inr full_name \<Rightarrow> new_message pool full_name))"

fun find_last_by ::
  "(field_descriptor \<Rightarrow> string) \<Rightarrow> string \<Rightarrow> field_descriptor list \<Rightarrow> nat
     \<Rightarrow> (nat \<times> field_descriptor) option" where
  "find_last_by key k [] i = None"
| "find_last_by key k (f # fs) i =
     (case find_last_by key k fs (Suc i) of
        Some found \<Rightarrow> Some found
      | None \<Rightarrow> if key f = k then Some (i, f) else None)"

definition find_field :: "field_descriptor list \<Rightarrow> string \<Rightarrow> (nat \<times> field_descriptor) option" where
  "find_field fields' k =
     (case find_last_by json_name k fields' 0 of
        Some found \<Rightarrow> Some found
      | None \<Rightarrow> find_last_by name k fields' 0)"

definition VALID_EXTENSION_NAME :: "string \<Rightarrow> bool" where
  "VALID_EXTENSION_NAME k =
     (case k of
        [] \<Rightarrow> False
      | c # cs \<Rightarrow>
         c = CHR ''['' \<and> cs \<noteq> [] \<and> last cs = CHR '']'' \<and>
         (\<forall>x\<in>set (butlast cs).
            x \<in> set ''abcdefghijklmnopqrstuvwxyzABCDEFGHIJKLMNOPQRSTUVWXYZ0123456789._''))"

text \<open>
  The \<^verbatim>\<open>except\<close> clauses of \<^verbatim>\<open>_ConvertFieldValuePair\<close> turn a ParseError, ValueError or
  TypeError raised under them into a ParseError; a path is \<^verbatim>\<open>None\<close> (here the empty
  string) at the top and names the field below.
\<close>

fun reraise :: "error \<Rightarrow> error" where
  "reraise (ParseError reason) = ParseError reason"
| "reraise ValueError = ParseError ''ValueError''"
| "reraise TypeError = ParseError ''TypeError''"
| "reraise e = e"

definition short_name :: "string \<Rightarrow> string" where
  "short_name full_name = rev (takeWhile (\<lambda>c. c \<noteq> CHR ''.'') (rev full_name))"

fun convert_repeated_scalars ::
  "scalar_converter \<Rightarrow> field_descriptor \<Rightarrow> string \<Rightarrow> py_value list \<Rightarrow> nat \<Rightarrow> error + py_value list"
where
  "convert_repeated_scalars convert field path [] index = Inr []"
| "convert_repeated_scalars convert field path (item # items) index =
     (if item = PyNone then Inl (ParseError ''null in a repeated field'')
      else case convert item field (path @ ''['' @ str_nat index @ '']'') False of
             Inl e \<Rightarrow> Inl e
           | Inr converted \<Rightarrow>
              (case CheckValue field converted of
                 Inl e \<Rightarrow> Inl e
               | Inr v \<Rightarrow>
                  (case convert_repeated_scalars convert field path items (Suc index) of
                     Inl e \<Rightarrow> Inl e
                   | Inr vs \<Rightarrow> Inr (v # vs))))"

text \<open>
  \<^verbatim>\<open>_Parser.ConvertMessage\<close> (lines 109-115), the runtime's \<^verbatim>\<open>ConvertMessage\<close> it
  calls under the patch, the loop of \<^verbatim>\<open>_ConvertFieldValuePair\<close> over the entries of the
  mapping and its loop over the items of a repeated message field. A custom deserializer
  is a function of the value, the target message and the path: it answers with the
  populated message or an exception and does not touch the state.
\<close>

definition set_repeated :: "message \<Rightarrow> nat \<Rightarrow> py_value list \<Rightarrow> message" where
  "set_repeated message i vs =
     (if vs = [] then ClearField message i else set_slot message i (PyList vs))"

function ConvertMessage ::
    "parser \<Rightarrow> descriptor_pool \<Rightarrow> py_value \<Rightarrow> message \<Rightarrow> string \<Rightarrow> parse_state
       \<Rightarrow> (error + message) \<times> parse_state"
  and super_ConvertMessage ::
    "parser \<Rightarrow> descriptor_pool \<Rightarrow> py_value \<Rightarrow> message \<Rightarrow> string \<Rightarrow> parse_state
       \<Rightarrow> (error + message) \<times> parse_state"
  and ConvertFieldValuePair ::
    "parser \<Rightarrow> descriptor_pool \<Rightarrow> field_descriptor list \<Rightarrow> (string \<times> py_value) list
       \<Rightarrow> message \<Rightarrow> string \<Rightarrow> string list \<Rightarrow> parse_state
       \<Rightarrow> (error + message) \<times> parse_state"
  and convert_repeated_messages ::
    "parser \<Rightarrow> descriptor_pool \<Rightarrow> string \<Rightarrow> string \<Rightarrow> py_value list \<Rightarrow> nat \<Rightarrow> parse_state
       \<Rightarrow> (error + py_value list) \<times> parse_state"
where
  "ConvertMessage self pool value message path st =
     (let full_name = DESCRIPTOR message
      in case parser_custom_deserializers self full_name of
           Some deserializer \<Rightarrow> (deserializer value message path, st)
         | None \<Rightarrow>
            patched_convert_scalar_field_value
              (\<lambda>st'. super_ConvertMessage self pool value message path st') st)"
| "super_ConvertMessage self pool value message path st =
     (let st1 = st\<lparr>recursion_depth := recursion_depth st + 1\<rparr>
      in if recursion_depth st1 > max_recursion_depth self
         then (Inl (ParseError ''Message too deep''), st1)
         else
          (let path' = (if path = [] then short_name (DESCRIPTOR message) else path)
           in if DESCRIPTOR message \<in> WELL_KNOWN
              then (Inl (NotModelled (DESCRIPTOR message)), st1)
              else case map_of pool (DESCRIPTOR message) of
                     None \<Rightarrow> (Inl (UnresolvedDescriptor (DESCRIPTOR message)), st1)
                   | Some fields' \<Rightarrow>
                      (case value of
                         PyDict js \<Rightarrow>
                          (case ConvertFieldValuePair self pool fields' js message path' [] st1 of
                             (Inl e, st2) \<Rightarrow> (Inl e, st2)
                           | (Inr message', st2) \<Rightarrow>
                              (Inr message',
                               st2\<lparr>recursion_depth := recursion_depth st2 - 1\<rparr>))
                       | _ \<Rightarrow> (Inl (NotModelled ''not a dict''), st1))))"
| "ConvertFieldValuePair self pool fields' [] message path names st = (Inr message, st)"
| "ConvertFieldValuePair self pool fields' ((name', value) # js) message path names st =
     (case find_field fields' name' of
        None \<Rightarrow>
         if VALID_EXTENSION_NAME name'
         then (Inl (ParseError ''does not have extensions''), st)
         else if ignore_unknown_fields self
         then ConvertFieldValuePair self pool fields' js message path names st
         else (Inl (ParseError ''no field named''), st)
      | Some (i, field) \<Rightarrow>
         if name' \<in> set names then (Inl (ParseError ''multiple fields''), st)
         else if value = PyNone
         then (if cpp_type field = CPPTYPE_MESSAGE \<and>
                  message_type field = Some ''google.protobuf.Value''
               then (Inl (NotModelled ''google.protobuf.Value''), st)
               else if cpp_type field = CPPTYPE_ENUM \<and>
                  map_option enum_full_name (enum_type field) = Some ''google.protobuf.NullValue''
               then (case setattr message i field (PyInt 0) of
                       Inl e \<Rightarrow> (Inl (reraise e), st)
                     | Inr message' \<Rightarrow>
                        ConvertFieldValuePair self pool fields' js message' path
                          (names @ [name']) st)
               else ConvertFieldValuePair self pool fields' js (ClearField message i) path
                      (names @ [name']) st)
         else if label field = LABEL_REPEATED
         then (case value of
                 PyList items \<Rightarrow>
                  if cpp_type field = CPPTYPE_MESSAGE
                  then (case full_name_of (message_type field) of
                          Inl e \<Rightarrow> (Inl e, st)
                        | Inr full_name \<Rightarrow>
                           (case convert_repeated_messages self pool full_name
                                   (path @ ''.'' @ name') items 0 st of
                              (Inl e, st') \<Rightarrow> (Inl (reraise e), st')
                            | (Inr subs, st') \<Rightarrow>
                               ConvertFieldValuePair self pool fields' js
                                 (set_repeated message i subs) path (names @ [name']) st'))
                  else (case convert_repeated_scalars (ConvertScalarFieldValue_attr st) field
                               (path @ ''.'' @ name') items 0 of
                          Inl e \<Rightarrow> (Inl (reraise e), st)
                        | Inr vs \<Rightarrow>
                           ConvertFieldValuePair self pool fields' js
                             (set_repeated message i vs) path (names @ [name']) st)
               | _ \<Rightarrow> (Inl (ParseError ''repeated field must be in []''), st))
         else if cpp_type field = CPPTYPE_MESSAGE
         then (case get_sub_message pool message i field of
                 Inl e \<Rightarrow> (Inl (reraise e), st)
               | Inr sub_message \<Rightarrow>
                  (case ConvertMessage self pool value sub_message (path @ ''.'' @ name') st of
                     (Inl e, st') \<Rightarrow> (Inl (reraise e), st')
                   | (Inr sub_message', st') \<Rightarrow>
                      ConvertFieldValuePair self pool fields' js
                        (set_slot message i (PyMessage sub_message')) path (names @ [name']) st'))
         else (case ConvertScalarFieldValue_attr st value field (path @ ''.'' @ name') False of
                 Inl e \<Rightarrow> (Inl (reraise e), st)
               | Inr converted \<Rightarrow>
                  (case setattr message i field converted of
                     Inl e \<Rightarrow> (Inl (reraise e), st)
                   | Inr message' \<Rightarrow>
                      ConvertFieldValuePair self pool fields' js message' path
                        (names @ [name']) st)))"
| "convert_repeated_messages self pool full_name path [] index st = (Inr [], st)"
| "convert_repeated_messages self pool full_name path (item # items) index st =
     (case new_message pool full_name of
        Inl e \<Rightarrow> (Inl e, st)
      | Inr sub_message \<Rightarrow>
         if item = PyNone \<and> full_name \<noteq> ''google.protobuf.Value''
         then (Inl (ParseError ''null in a repeated field''), st)
         else (case ConvertMessage self pool item sub_message
                      (path @ ''['' @ str_nat index @ '']'') st of
                 (Inl e, st') \<Rightarrow> (Inl e, st')
               | (Inr sub_message', st') \<Rightarrow>
                  (case convert_repeated_messages self pool full_name path items (Suc index) st' of
                     (Inl e, st'') \<Rightarrow> (Inl e, st'')
                   | (Inr subs, st'') \<Rightarrow> (Inr (PyMessage sub_message' # subs), st''))))"
  by pat_completeness auto

lemma dict_size:
  "(\<Sum>(k, v)\<leftarrow>js. Suc (size v)) < Suc (size_list (size_prod (\<lambda>x. 0) size) js)"
  by (induction js) auto

termination ConvertMessage
  by (relation "measures
    [\<lambda>x. case x of
        Inl (Inl (self, pool, value, message, path, st)) \<Rightarrow> size value
      | Inl (Inr (self, pool, value, message, path, st)) \<Rightarrow> size value
      | Inr (Inl (self, pool, fs, js, message, path, names, st)) \<Rightarrow>
          (\<Sum>(k, v)\<leftarrow>js. Suc (size v))
      | Inr (Inr (self, pool, full_name, path, items, index, st)) \<Rightarrow> size_list size items,
     \<lambda>x. case x of
        Inl (Inl _) \<Rightarrow> 1
      | Inl (Inr _) \<Rightarrow> 0
      | Inr _ \<Rightarrow> (0::nat)]")
     (simp_all add: dict_size)

text \<open>
\<^verbatim>\<open>message_to_dict\<close> (lines 204-222), with its five options in the order of the
  source and the format the runtime's constructor derives from \<^verbatim>\<open>float_precision\<close>,
  and \<^verbatim>\<open>parse_dict\<close> (lines 224-239).
  \<open>parse_dict\<close> takes the runtime's conversion function as it finds it and returns, with
  the result, the function it leaves there.
\<close>

definition float_format_of :: "int option \<Rightarrow> string option" where
  "float_format_of float_precision =
     (case float_precision of
        None \<Rightarrow> None
      | Some n \<Rightarrow> if n = 0 then None else Some (''.'' @ str_int n @ ''g''))"

definition message_to_dict ::
  "message_converter \<Rightarrow> descriptor_pool \<Rightarrow> message \<Rightarrow> bool \<Rightarrow> bool \<Rightarrow> bool
     \<Rightarrow> descriptor_pool option \<Rightarrow> int option \<Rightarrow> error + py_value" where
  "message_to_dict self pool message including_defaults preserving use_integers
       descriptor_pool' float_precision =
     (let printer = \<lparr>printer_custom_serializers = custom_serializers self,
                      including_default_value_fields = including_defaults,
                      printer_preserving_proto_field_name = preserving,
                      use_integers_for_enums = use_integers,
                      printer_descriptor_pool = descriptor_pool',
                      float_format = float_format_of float_precision\<rparr>
      in MessageToJsonObject printer pool message)"

definition parse_dict ::
  "message_converter \<Rightarrow> descriptor_pool \<Rightarrow> py_value \<Rightarrow> message \<Rightarrow> bool \<Rightarrow> int
     \<Rightarrow> scalar_converter \<Rightarrow> (error + message) \<times> scalar_converter" where
  "parse_dict self pool value message ignore_unknown max_depth convert =
     (let parser = \<lparr>parser_custom_deserializers = custom_deserializers self,
                     ignore_unknown_fields = ignore_unknown,
                     max_recursion_depth = max_depth\<rparr>;
          (r, st) = ConvertMessage parser pool value message []
                      \<lparr>ConvertScalarFieldValue_attr = convert, recursion_depth = 0\<rparr>
      in (r, ConvertScalarFieldValue_attr st))"

declare MessageToJsonObject.simps [simp del]
declare super_MessageToJsonObject.simps [simp del]
declare RegularMessageToJsonObject.simps(2) [simp del]
declare default_value_fields.simps(2) [simp del]
declare FieldToJsonObject.simps [simp del]
declare super_FieldToJsonObject.simps [simp del]
declare ConvertMessage.simps [simp del]
declare super_ConvertMessage.simps [simp del]
declare ConvertFieldValuePair.simps(2) [simp del]
declare convert_repeated_messages.simps(2) [simp del]

section \<open>The timestamp pair\<close>

text \<open>
  Modelled from the spec: \<^verbatim>\<open>pbspark/_timestamp.py\<close> (\<^verbatim>\<open>_to_datetime\<close>,
  \<^verbatim>\<open>_from_datetime\<close>) is not among the sources. Section 4.3 of the spec: the serializer
  "turns the well-known timestamp message into a native date-time value" and the
  deserializer "does the inverse". A timestamp message has the two fields \<open>seconds\<close> and
  \<open>nanos\<close>, unset where zero; the native value is \<open>PyNative ''datetime''\<close> of the two.
\<close>

fun int_slot :: "py_value option \<Rightarrow> int option" where
  "int_slot None = Some 0"
| "int_slot (Some (PyInt n)) = Some n"
| "int_slot (Some v) = None"

definition slot_of_int :: "int \<Rightarrow> py_value option" where
  "slot_of_int n = (if n = 0 then None else Some (PyInt n))"

fun to_datetime :: serializer where
  "to_datetime (Message full_name [seconds, nanos]) =
     (case (int_slot seconds, int_slot nanos) of
        (Some s, Some n) \<Rightarrow> Inr (PyNative ''datetime'' [s, n])
      | _ \<Rightarrow> Inl TypeError)"
| "to_datetime (Message full_name other) = Inl TypeError"

fun from_datetime :: deserializer where
  "from_datetime (PyNative tag [s, n]) message path =
     (if tag = ''datetime''
      then Inr (Message (DESCRIPTOR message) [slot_of_int s, slot_of_int n])
      else Inl TypeError)"
| "from_datetime other message path = Inl TypeError"

section \<open>Vocabulary of the statements about schema derivation\<close>

text \<open>The name and the type of the entry appended at lines 304-307.\<close>

definition field_name_in :: "schema_options \<Rightarrow> field_descriptor \<Rightarrow> string" where
  "field_name_in options field =
     (if \<not> preserving_proto_field_name options then camelcase_name field else name field)"

definition labelled :: "field_descriptor \<Rightarrow> data_type \<Rightarrow> data_type" where
  "labelled field spark_type =
     (if label field = LABEL_REPEATED then ArrayType spark_type True else spark_type)"

fun struct_field_name :: "struct_field \<Rightarrow> string" where
  "struct_field_name (StructField n t nullable) = n"

fun seen_set :: "string set option \<Rightarrow> string set" where
  "seen_set None = {}"
| "seen_set (Some s) = s"

text \<open>
  A field of the pool that is message-typed: its \<^verbatim>\<open>cpp_type\<close> is
  \<^verbatim>\<open>CPPTYPE_MESSAGE\<close> and its message type is a descriptor of the pool.
\<close>

definition pool_field :: "descriptor_pool \<Rightarrow> field_descriptor \<Rightarrow> bool" where
  "pool_field pool f =
     (cpp_type f = CPPTYPE_MESSAGE \<and> (\<exists>m\<in>pool_names pool. message_type f = Some m))"

text \<open>A descriptor graph all of whose fields are message-typed.\<close>

definition message_only :: "descriptor_pool \<Rightarrow> bool" where
  "message_only pool =
     (\<forall>entry\<in>set pool. \<forall>f\<in>set (snd entry).
        cpp_type f = CPPTYPE_MESSAGE \<and>
        (case message_type f of None \<Rightarrow> False | Some m \<Rightarrow> m \<in> pool_names pool))"

text \<open>
  An acyclic descriptor graph: some rank of the type names decreases along every
  message-typed field.
\<close>

definition ranked :: "(string \<Rightarrow> nat) \<Rightarrow> descriptor_pool \<Rightarrow> bool" where
  "ranked rank pool =
     (\<forall>entry\<in>set pool. \<forall>f\<in>set (snd entry).
        (case message_type f of None \<Rightarrow> True | Some m \<Rightarrow> rank m < rank (fst entry)))"

text \<open>
  A field the loop neither skips as deprecated (lines 273-278) nor finds in the seen set
  (lines 281-287).
\<close>

definition kept :: "schema_options \<Rightarrow> string set \<Rightarrow> field_descriptor \<Rightarrow> bool" where
  "kept options seen f =
     (\<not> (has_options f \<and> deprecated f \<and> ignore_deprecated options) \<and>
      (case message_type f of None \<Rightarrow> True | Some m \<Rightarrow> m \<notin> seen))"

text \<open>A result that is a schema, or the circular-definition error where it is not ignored.\<close>

definition benign :: "schema_options \<Rightarrow> error + 'a \<Rightarrow> bool" where
  "benign options r =
     (case r of
        Inl e \<Rightarrow> \<not> ignore_circular_definitions options \<and> (\<exists>n. e = CircularDefinition n)
      | Inr v \<Rightarrow> True)"

text \<open>Sequences of calls on the serializer side of the registry.\<close>

datatype registry_call =
  Register string serializer data_type
| Unregister string

fun registry_step :: "message_converter \<Rightarrow> registry_call \<Rightarrow> message_converter" where
  "registry_step self (Register full_name serializer return_type) =
     register_serializer full_name serializer return_type self"
| "registry_step self (Unregister full_name) = unregister_serializer full_name self"

definition registry_invariant :: "message_converter \<Rightarrow> bool" where
  "registry_invariant self \<longleftrightarrow>
     dom (custom_serializers self) \<subseteq> dom (message_type_to_spark_type_map self)"

section \<open>Vocabulary of the statements about conversion\<close>

text \<open>
A new instance of a message type (\<^verbatim>\<open>message_type()\<close>, line 371) and the key under
  which the printer writes a field.
\<close>

definition new_instance :: "string \<Rightarrow> field_descriptor list \<Rightarrow> message" where
  "new_instance full_name fields' = Message full_name (replicate (length fields') None)"

definition output_name :: "bool \<Rightarrow> field_descriptor \<Rightarrow> string" where
  "output_name preserving field = (if preserving then name field else json_name field)"

section \<open>Descriptors and converters of the examples\<close>

definition message_field :: "string \<Rightarrow> string \<Rightarrow> field_descriptor" where
  "message_field n m =
     \<lparr>name = n, camelcase_name = n, json_name = n, cpp_type = CPPTYPE_MESSAGE,
      type = TYPE_MESSAGE, label = LABEL_OPTIONAL, message_type = Some m, enum_type = None,
      has_options = False, deprecated = False, has_presence = True, file_syntax = Proto3\<rparr>"

definition scalar_field :: "string \<Rightarrow> cpp_type \<Rightarrow> field_type \<Rightarrow> field_descriptor" where
  "scalar_field n c t =
     \<lparr>name = n, camelcase_name = n, json_name = n, cpp_type = c,
      type = t, label = LABEL_OPTIONAL, message_type = None, enum_type = None,
      has_options = False, deprecated = False, has_presence = False, file_syntax = Proto3\<rparr>"

definition repeated :: "field_descriptor \<Rightarrow> field_descriptor" where
  "repeated f = f\<lparr>label := LABEL_REPEATED, has_presence := False\<rparr>"

definition default_converter :: message_converter where
  "default_converter = MessageConverter to_datetime from_datetime"

definition self_pool :: descriptor_pool where
  "self_pool = [(''A'', [message_field ''child'' ''B'', message_field ''self'' ''A'']), (''B'', [])]"

definition sibling_pool :: descriptor_pool where
  "sibling_pool =
     [(''A'', [message_field ''b1'' ''B'', repeated (message_field ''b2'' ''B'')]),
      (''B'', [message_field ''c'' ''C'']),
      (''C'', [])]"

definition sibling_rank :: "string \<Rightarrow> nat" where
  "sibling_rank n = (if n = ''A'' then 2 else if n = ''B'' then 1 else 0)"

definition nested_cycle_pool :: descriptor_pool where
  "nested_cycle_pool =
     [(''A'', [message_field ''b1'' ''B'', message_field ''b2'' ''B'']),
      (''B'', [message_field ''c'' ''C'']),
      (''C'', [message_field ''c'' ''C''])]"

definition mixed_pool :: descriptor_pool where
  "mixed_pool =
     [(''A'', [message_field ''self'' ''A'', scalar_field ''x'' CPPTYPE_INT32 TYPE_INT32])]"

definition decimal_field :: field_descriptor where
  "decimal_field = message_field ''decimal'' ''example.DecimalMessage''"

text \<open>
  The converter of \<^verbatim>\<open>test_get_spark_schema\<close>, with \<open>DecimalMessage\<close> registered for a
  decimal type; \<open>DecimalMessage\<close> as the tests use it (one string field) below two message
  types whose fields are all message-typed.
\<close>

definition decimal_converter :: message_converter where
  "decimal_converter =
     register_serializer ''example.DecimalMessage'' (\<lambda>message. Inr PyNone) (DecimalType 10 2)
       default_converter"

definition decimal_pool :: descriptor_pool where
  "decimal_pool =
     [(''example.Basket'', [message_field ''order'' ''example.Order'']),
      (''example.Order'',
        [decimal_field, repeated (message_field ''fees'' ''example.DecimalMessage'')]),
      (''example.DecimalMessage'', [scalar_field ''value'' CPPTYPE_STRING TYPE_STRING])]"

text \<open>
The message type and the message of the concrete scenario of the spec (section 8): the
  fields the scenario names, in the order of \<^verbatim>\<open>test_get_spark_schema\<close>.
\<close>

definition SomeEnum :: enum_descriptor where
  "SomeEnum = \<lparr>enum_full_name = ''example.ExampleMessage.SomeEnum'',
               enum_values = [(''unspecified'', 0), (''first'', 1), (''second'', 2)]\<rparr>"

definition example_pool :: descriptor_pool where
  "example_pool =
     [(''example.ExampleMessage'',
        [scalar_field ''int32'' CPPTYPE_INT32 TYPE_INT32,
         (scalar_field ''enum'' CPPTYPE_ENUM TYPE_ENUM)\<lparr>enum_type := Some SomeEnum\<rparr>,
         message_field ''nested'' ''example.NestedMessage'',
         repeated (scalar_field ''stringlist'' CPPTYPE_STRING TYPE_STRING),
         scalar_field ''bytes'' CPPTYPE_STRING TYPE_BYTES]),
      (''example.NestedMessage'',
        [scalar_field ''key'' CPPTYPE_STRING TYPE_STRING,
         scalar_field ''value'' CPPTYPE_STRING TYPE_STRING])]"

definition example_message :: message where
  "example_message =
     Message ''example.ExampleMessage''
       [Some (PyInt 69),
        Some (PyInt 1),
        Some (PyMessage (Message ''example.NestedMessage''
                [Some (PyStr ''hello''), Some (PyStr ''world'')])),
        Some (PyList [PyStr ''one'', PyStr ''two'', PyStr ''three'']),
        Some (PyBytes ''something'')]"


section \<open>Facts about the schema derivation\<close>

lemmas converter_defs =
  default_converter_def MessageConverter_def register_timestamp_serializer_def
  register_timestamp_deserializer_def register_serializer_def register_deserializer_def
  Timestamp_def MESSAGETYPE_TO_SPARK_TYPE_MAP_def

lemma schema_fields_append:
  "schema_fields self pool options seen (xs @ ys) =
     (case schema_fields self pool options seen xs of
        Inl e \<Rightarrow> Inl e
      | Inr s1 \<Rightarrow> (case schema_fields self pool options seen ys of
                    Inl e \<Rightarrow> Inl e
                  | Inr s2 \<Rightarrow> Inr (s1 @ s2)))"
  by (induction xs) (simp_all split: sum.splits option.splits)

lemma schema_field_scalar:
  "message_type field = None \<Longrightarrow>
     schema_field self pool options seen field = Inl AttributeError"
  by (simp add: schema_field.simps)

lemma get_spark_schema_override:
  "message_type_to_spark_type_map self d = Some t \<Longrightarrow>
     get_spark_schema self pool options so d = Inr t"
  by (simp add: get_spark_schema.simps)

lemma seen_set_case: "(case so of None \<Rightarrow> {} | Some s \<Rightarrow> s) = seen_set so"
  by (cases so) simp_all

lemma schema_field_message:
  assumes "message_type f = Some m" "cpp_type f = CPPTYPE_MESSAGE"
  shows "schema_field self pool options seen f =
     (if has_options f \<and> deprecated f \<and> ignore_deprecated options then Inr None
      else if m \<in> seen
      then (if ignore_circular_definitions options then Inr None
            else Inl (CircularDefinition m))
      else (case get_spark_schema self pool options (Some seen) m of
              Inl e \<Rightarrow> Inl e
            | Inr t \<Rightarrow> Inr (Some (StructField (field_name_in options f) (labelled f t) True))))"
proof (cases "message_type_to_spark_type_map self m")
  case None
  then show ?thesis using assms
    by (simp add: schema_field.simps field_name_in_def labelled_def Let_def split: sum.splits)
next
  case (Some t)
  then show ?thesis using assms
    by (simp add: schema_field.simps field_name_in_def labelled_def Let_def
          get_spark_schema_override)
qed

lemma message_only_field:
  assumes "message_only pool" "map_of pool d = Some fs" "f \<in> set fs"
  shows "cpp_type f = CPPTYPE_MESSAGE \<and> (\<exists>m\<in>pool_names pool. message_type f = Some m)"
proof -
  from assms(2) have "(d, fs) \<in> set pool" by (rule map_of_SomeD)
  with assms(1,3) show ?thesis
    by (fastforce simp: message_only_def split: option.splits)
qed

lemma pool_names_lookup: "d \<in> pool_names pool \<Longrightarrow> \<exists>fs. map_of pool d = Some fs"
  by (metis pool_names_def domD dom_map_of_conv_image_fst)

lemma benign_simps [simp]:
  "benign options (Inr v)"
  "benign options (Inl e) \<longleftrightarrow>
     \<not> ignore_circular_definitions options \<and> (\<exists>n. e = CircularDefinition n)"
  by (simp_all add: benign_def)

lemma message_only_benign:
  shows "message_only pool \<Longrightarrow> d \<in> pool_names pool \<Longrightarrow>
           benign options (get_spark_schema self pool options so d)"
    and "message_only pool \<Longrightarrow> \<forall>f\<in>set fs. pool_field pool f \<Longrightarrow>
           benign options (schema_fields self pool options seen fs)"
    and "message_only pool \<Longrightarrow> pool_field pool f \<Longrightarrow>
           benign options (schema_field self pool options seen f)"
proof (induction self pool options so d and self pool options seen fs
         and self pool options seen f
         rule: get_spark_schema_schema_fields_schema_field.induct)
  case (1 self pool options so d)
  show ?case
  proof (cases "message_type_to_spark_type_map self d")
    case (Some t)
    then show ?thesis by (simp add: get_spark_schema_override)
  next
    case None
    from 1(3) obtain fs where fs: "map_of pool d = Some fs"
      using pool_names_lookup by blast
    have "\<forall>f\<in>set fs. pool_field pool f"
      using message_only_field [OF 1(2) fs] by (simp add: pool_field_def)
    from 1(1) [OF refl None fs 1(2) this]
    show ?thesis using None fs
      by (auto simp add: get_spark_schema.simps split: sum.splits)
  qed
next
  case (2 self pool options seen)
  show ?case by simp
next
  case (3 self pool options seen f fs)
  have a: "benign options (schema_field self pool options seen f)"
    using 3(1) 3(4,5) by simp
  show ?case
  proof (cases "schema_field self pool options seen f")
    case (Inl e)
    then show ?thesis using a by simp
  next
    case (Inr r)
    show ?thesis
    proof (cases r)
      case None
      then show ?thesis using 3(2) [OF Inr None 3(4)] 3(5) Inr by simp
    next
      case (Some entry)
      then show ?thesis using 3(3) [OF Inr Some 3(4)] 3(5) Inr
        by (auto split: sum.splits)
    qed
  qed
next
  case (4 self pool options seen f)
  from 4(3) obtain m where m: "message_type f = Some m" "m \<in> pool_names pool"
    and c: "cpp_type f = CPPTYPE_MESSAGE"
    by (auto simp: pool_field_def)
  show ?case
  proof (cases "message_type_to_spark_type_map self m")
    case (Some t)
    then show ?thesis
      by (simp add: schema_field_message [OF m(1) c] get_spark_schema_override)
  next
    case None
    show ?thesis
    proof (cases "(has_options f \<and> deprecated f \<and> ignore_deprecated options) \<or> m \<in> seen")
      case True
      then show ?thesis by (auto simp add: schema_field_message [OF m(1) c])
    next
      case False
      have "benign options (get_spark_schema self pool options (Some seen) m)"
        using 4(1) [of m m] False m c None 4(2) by auto
      then show ?thesis using False
        by (auto simp add: schema_field_message [OF m(1) c] split: sum.splits)
    qed
  qed
qed

lemma cyclic_field_fails:
  assumes "message_only pool" "\<forall>f\<in>set fs. pool_field pool f"
    and "\<not> ignore_circular_definitions options" "\<not> ignore_deprecated options"
    and "g \<in> set fs" "message_type g = Some m" "m \<in> seen"
  shows "\<exists>n. schema_fields self pool options seen fs = Inl (CircularDefinition n)"
  using assms(2,5)
proof (induction fs)
  case Nil
  then show ?case by simp
next
  case (Cons f fs)
  have pf: "pool_field pool f" using Cons.prems(1) by simp
  have b: "benign options (schema_field self pool options seen f)"
    by (rule message_only_benign(3) [OF assms(1) pf])
  show ?case
  proof (cases "schema_field self pool options seen f")
    case (Inl e)
    then show ?thesis using b by auto
  next
    case (Inr r)
    have "g \<noteq> f"
    proof
      assume "g = f"
      then have "schema_field self pool options seen f = Inl (CircularDefinition m)"
        using pf assms(3,4,6,7) by (simp add: schema_field_message pool_field_def)
      with Inr show False by simp
    qed
    with Cons.prems have "g \<in> set fs" "\<forall>f\<in>set fs. pool_field pool f" by auto
    from Cons.IH [OF this(2,1)] obtain n where
      "schema_fields self pool options seen fs = Inl (CircularDefinition n)" ..
    then show ?thesis using Inr by (cases r) auto
  qed
qed

lemma ignoring_cycles_names:
  assumes "message_only pool" "\<forall>f\<in>set fs. pool_field pool f"
    and "ignore_circular_definitions options"
  shows "\<exists>schema. schema_fields self pool options seen fs = Inr schema \<and>
           map struct_field_name schema =
             map (field_name_in options) (filter (kept options seen) fs)"
  using assms(2)
proof (induction fs)
  case Nil
  then show ?case by simp
next
  case (Cons f fs)
  have pf: "pool_field pool f" using Cons.prems(1) by simp
  then obtain m where m: "message_type f = Some m" "m \<in> pool_names pool"
    and c: "cpp_type f = CPPTYPE_MESSAGE"
    by (auto simp: pool_field_def)
  from Cons obtain schema where
    schema: "schema_fields self pool options seen fs = Inr schema"
      "map struct_field_name schema =
         map (field_name_in options) (filter (kept options seen) fs)"
    by auto
  show ?case
  proof (cases "kept options seen f")
    case False
    then have "schema_field self pool options seen f = Inr None"
      using m assms(3) by (auto simp: kept_def schema_field_message [OF m(1) c])
    then show ?thesis using schema False by simp
  next
    case True
    have "benign options (get_spark_schema self pool options (Some seen) m)"
      by (rule message_only_benign(1) [OF assms(1) m(2)])
    then obtain t where "get_spark_schema self pool options (Some seen) m = Inr t"
      using assms(3) by (cases "get_spark_schema self pool options (Some seen) m") auto
    then have "schema_field self pool options seen f =
        Inr (Some (StructField (field_name_in options f) (labelled f t) True))"
      using True m by (auto simp: kept_def schema_field_message [OF m(1) c])
    then show ?thesis using schema True by simp
  qed
qed

lemma ranked_field:
  assumes "ranked rank pool" "map_of pool d = Some fs" "f \<in> set fs" "message_type f = Some m"
  shows "rank m < rank d"
proof -
  from assms(2) have "(d, fs) \<in> set pool" by (rule map_of_SomeD)
  with assms(1,3,4) show ?thesis by (fastforce simp: ranked_def)
qed

lemma ranked_derivation:
  assumes "message_only pool" "ranked rank pool"
  shows "d \<in> pool_names pool \<Longrightarrow> \<forall>s\<in>seen_set so. rank d < rank s \<Longrightarrow>
           \<exists>t. get_spark_schema self pool options so d = Inr t \<and>
               get_spark_schema self pool options None d = Inr t"
proof (induction "rank d" arbitrary: d so rule: less_induct)
  case less
  show ?case
  proof (cases "message_type_to_spark_type_map self d")
    case (Some t)
    then show ?thesis by (simp add: get_spark_schema_override)
  next
    case None
    from less.prems(1) obtain fs where fs: "map_of pool d = Some fs"
      using pool_names_lookup by blast
    let ?S = "insert d (seen_set so)"
    have inner: "set fs' \<subseteq> set fs \<Longrightarrow>
        \<exists>schema. schema_fields self pool options ?S fs' = Inr schema \<and>
          schema_fields self pool options {d} fs' = Inr schema"
      for fs'
    proof (induction fs')
      case Nil
      then show ?case by simp
    next
      case (Cons f fs')
      then have f: "f \<in> set fs" by simp
      from message_only_field [OF assms(1) fs f] obtain m where
        m: "message_type f = Some m" "m \<in> pool_names pool" and c: "cpp_type f = CPPTYPE_MESSAGE"
        by auto
      have r: "rank m < rank d" by (rule ranked_field [OF assms(2) fs f m(1)])
      have notin: "m \<notin> ?S" "m \<notin> {d}" using r less.prems(2) by auto
      have s1: "\<forall>s\<in>seen_set (Some ?S). rank m < rank s" using r less.prems(2) by auto
      have s2: "\<forall>s\<in>seen_set (Some {d}). rank m < rank s" using r by auto
      from less.hyps [OF r m(2) s1] less.hyps [OF r m(2) s2]
      obtain t where t: "get_spark_schema self pool options (Some ?S) m = Inr t"
        "get_spark_schema self pool options (Some {d}) m = Inr t"
        by fastforce
      have "\<exists>r. schema_field self pool options ?S f = Inr r \<and>
                schema_field self pool options {d} f = Inr r"
        using notin t by (simp add: schema_field_message [OF m(1) c])
      then obtain r' where r': "schema_field self pool options ?S f = Inr r'"
        and e: "schema_field self pool options {d} f = Inr r'" by blast
      from Cons obtain schema where
        "schema_fields self pool options ?S fs' = Inr schema"
        "schema_fields self pool options {d} fs' = Inr schema"
        by auto
      then show ?case using e r' by (cases r') auto
    qed
    from inner [of fs] obtain schema where
      "schema_fields self pool options ?S fs = Inr schema"
      "schema_fields self pool options {d} fs = Inr schema" by auto
    then show ?thesis using None fs
      by (simp add: get_spark_schema.simps seen_set_case)
  qed
qed

lemma ranked_fields:
  assumes "message_only pool" "ranked rank pool" "\<not> ignore_deprecated options"
    and "map_of pool d = Some fs" "set fs' \<subseteq> set fs"
  shows "\<exists>schema. schema_fields self pool options {d} fs' = Inr schema \<and>
           list_all2 (\<lambda>f e. \<exists>m t. message_type f = Some m \<and>
                        get_spark_schema self pool options None m = Inr t \<and>
                        e = StructField (field_name_in options f) (labelled f t) True)
             fs' schema"
  using assms(5)
proof (induction fs')
  case Nil
  then show ?case by simp
next
  case (Cons f fs')
  then have f: "f \<in> set fs" by simp
  from message_only_field [OF assms(1,4) f] obtain m where
    m: "message_type f = Some m" "m \<in> pool_names pool" and c: "cpp_type f = CPPTYPE_MESSAGE"
    by auto
  have r: "rank m < rank d" by (rule ranked_field [OF assms(2,4) f m(1)])
  then have "\<forall>s\<in>seen_set (Some {d}). rank m < rank s" by simp
  from ranked_derivation [OF assms(1,2) m(2) this, of self options]
  obtain t where t: "get_spark_schema self pool options (Some {d}) m = Inr t"
    "get_spark_schema self pool options None m = Inr t" by auto
  have "m \<noteq> d" using r by auto
  then have e: "schema_field self pool options {d} f =
      Inr (Some (StructField (field_name_in options f) (labelled f t) True))"
    using t assms(3) by (simp add: schema_field_message [OF m(1) c])
  from Cons obtain schema where
    "schema_fields self pool options {d} fs' = Inr schema"
    "list_all2 (\<lambda>f e. \<exists>m t. message_type f = Some m \<and>
                        get_spark_schema self pool options None m = Inr t \<and>
                        e = StructField (field_name_in options f) (labelled f t) True)
       fs' schema"
    by auto
  then show ?case using e m(1) t(2) by simp
qed

lemma unconsulted_fields:
  assumes "message_type_to_spark_type_map self T \<noteq> None"
  shows "get_spark_schema self ((T, fs') # pool) options so d =
           get_spark_schema self pool options so d"
    and "schema_fields self ((T, fs') # pool) options seen fs =
           schema_fields self pool options seen fs"
    and "schema_field self ((T, fs') # pool) options seen f =
           schema_field self pool options seen f"
  using assms
proof (induction self pool options so d and self pool options seen fs
         and self pool options seen f
         rule: get_spark_schema_schema_fields_schema_field.induct)
  case (1 self pool options so d)
  show ?case
  proof (cases "message_type_to_spark_type_map self d")
    case (Some t)
    then show ?thesis by (simp add: get_spark_schema_override)
  next
    case None
    then have "d \<noteq> T" using 1(2) by auto
    then show ?thesis using None 1(1) [OF refl None _ 1(2)]
      by (auto simp: get_spark_schema.simps split: option.splits)
  qed
next
  case (2 self pool options seen)
  show ?case by simp
next
  case (3 self pool options seen f fs)
  have e: "schema_field self ((T, fs') # pool) options seen f =
           schema_field self pool options seen f" using 3 by simp
  show ?case
  proof (cases "schema_field self pool options seen f")
    case (Inl e')
    then show ?thesis using e by simp
  next
    case (Inr r)
    then show ?thesis using e 3(2,3) [OF Inr _ 3(4)] by (cases r) auto
  qed
next
  case (4 self pool options seen f)
  show ?case
  proof (cases "message_type f")
    case None
    then show ?thesis by (simp add: schema_field.simps)
  next
    case (Some m)
    show ?thesis
    proof (cases "cpp_type f = CPPTYPE_MESSAGE")
      case False
      then show ?thesis by (simp add: schema_field.simps)
    next
      case True
      show ?thesis
      proof (cases "message_type_to_spark_type_map self m")
        case (Some t)
        then show ?thesis using \<open>message_type f = Some m\<close> True
          by (simp add: schema_field_message get_spark_schema_override)
      next
        case None
        show ?thesis
        proof (cases "(has_options f \<and> deprecated f \<and> ignore_deprecated options) \<or> m \<in> seen")
          case True
          then show ?thesis using \<open>message_type f = Some m\<close> \<open>cpp_type f = CPPTYPE_MESSAGE\<close>
            by (auto simp: schema_field_message)
        next
          case False
          have "get_spark_schema self ((T, fs') # pool) options (Some seen) m =
                get_spark_schema self pool options (Some seen) m"
            using 4(1) [of m m] False \<open>message_type f = Some m\<close> True None 4(2) by auto
          then show ?thesis using \<open>message_type f = Some m\<close> True
            by (simp add: schema_field_message)
        qed
      qed
    qed
  qed
qed

lemma registry_invariant_init:
  "registry_invariant (MessageConverter to_datetime from_datetime)"
  by (simp add: registry_invariant_def MessageConverter_def register_timestamp_serializer_def
        register_timestamp_deserializer_def register_serializer_def register_deserializer_def)

lemma registry_invariant_step:
  "registry_invariant self \<Longrightarrow> registry_invariant (registry_step self c)"
  by (cases c)
     (auto simp: registry_invariant_def register_serializer_def unregister_serializer_def
        Let_def split: option.splits)

lemma registry_invariant_foldl:
  "registry_invariant self \<Longrightarrow> registry_invariant (foldl registry_step self calls)"
  by (induction calls arbitrary: self) (simp_all add: registry_invariant_step)

section \<open>The claims about the registry and the schema derivation\<close>

text \<open>
  Claim C2, as amended. In a descriptor graph all of whose fields are message-typed, let
  a message type \<open>A\<close> without an entry in the override or well-known schema map have a
  field whose message type is \<open>A\<close>. With default options \<^verbatim>\<open>get_spark_schema\<close> on \<open>A\<close>
  fails with the circular-definition error; with \<^verbatim>\<open>ignore_circular_definitions\<close> set
  it returns a record type whose fields are exactly the fields of \<open>A\<close> whose message
  type is not \<open>A\<close>, in order, under their camel-case names.
\<close>

theorem self_reference:
  assumes "message_only pool"
    and "message_type_to_spark_type_map self A = None"
    and "map_of pool A = Some fs" "f \<in> set fs" "message_type f = Some A"
  shows "(\<exists>n. get_spark_schema self pool default_options None A = Inl (CircularDefinition n)) \<and>
         (\<exists>schema. get_spark_schema self pool
                      (default_options\<lparr>ignore_circular_definitions := True\<rparr>) None A
                    = Inr (StructType schema) \<and>
                    map struct_field_name schema =
                      map camelcase_name (filter (\<lambda>g. message_type g \<noteq> Some A) fs))"
proof -
  have pf: "\<forall>f\<in>set fs. pool_field pool f"
    using message_only_field [OF assms(1,3)] by (simp add: pool_field_def)
  from cyclic_field_fails [OF assms(1) pf _ _ assms(4,5), of default_options "{A}" self]
  obtain n where
    "schema_fields self pool default_options {A} fs = Inl (CircularDefinition n)"
    by (auto simp: default_options_def)
  then have one: "get_spark_schema self pool default_options None A = Inl (CircularDefinition n)"
    using assms(2,3) by (simp add: get_spark_schema.simps)
  let ?o = "default_options\<lparr>ignore_circular_definitions := True\<rparr>"
  from ignoring_cycles_names [OF assms(1) pf, of ?o self "{A}"]
  obtain schema where schema: "schema_fields self pool ?o {A} fs = Inr schema"
    "map struct_field_name schema = map (field_name_in ?o) (filter (kept ?o {A}) fs)"
    by auto
  have k: "kept ?o {A} = (\<lambda>g. message_type g \<noteq> Some A)"
    by (auto simp: kept_def default_options_def fun_eq_iff split: option.splits)
  have n: "field_name_in ?o = camelcase_name"
    by (auto simp: field_name_in_def default_options_def fun_eq_iff)
  have "get_spark_schema self pool ?o None A = Inr (StructType schema)"
    using assms(2,3) schema(1) by (simp add: get_spark_schema.simps)
  with schema(2) one show ?thesis unfolding k n by blast
qed

theorem self_reference_witness:
  "message_only self_pool \<and>
   message_type_to_spark_type_map default_converter ''A'' = None \<and>
   map_of self_pool ''A'' = Some [message_field ''child'' ''B'', message_field ''self'' ''A''] \<and>
   message_type (message_field ''self'' ''A'') = Some ''A'' \<and>
   (\<exists>n. get_spark_schema default_converter self_pool default_options None ''A''
          = Inl (CircularDefinition n)) \<and>
   (\<exists>schema. get_spark_schema default_converter self_pool
                (default_options\<lparr>ignore_circular_definitions := True\<rparr>) None ''A''
              = Inr (StructType schema) \<and>
              map struct_field_name schema = [''child''])"
proof -
  have 1: "message_only self_pool"
    by (simp add: message_only_def self_pool_def message_field_def pool_names_def)
  have 2: "message_type_to_spark_type_map default_converter ''A'' = None"
    by (simp add: default_converter_def MessageConverter_def register_timestamp_serializer_def
          register_timestamp_deserializer_def register_serializer_def register_deserializer_def
          Timestamp_def MESSAGETYPE_TO_SPARK_TYPE_MAP_def)
  have 3: "map_of self_pool ''A'' =
             Some [message_field ''child'' ''B'', message_field ''self'' ''A'']"
    by (simp add: self_pool_def)
  have 4: "message_field ''self'' ''A'' \<in>
             set [message_field ''child'' ''B'', message_field ''self'' ''A'']"
    by simp
  have 5: "message_type (message_field ''self'' ''A'') = Some ''A''"
    by (simp add: message_field_def)
  from self_reference [OF 1 2 3 4 5] 1 2 3 5 show ?thesis
    by (simp add: message_field_def)
qed

text \<open>
  Claim C2 as stated fails where \<open>A\<close> has an entry in the schema map: a message type
  \<open>A\<close> with a field of type \<open>A\<close> and a registered serializer is derived, with default
  options, as the declared type, without an error (lines 268-269).
\<close>

theorem self_reference_registered:
  "message_type (message_field ''self'' ''A'') = Some ''A'' \<and>
   get_spark_schema (register_serializer ''A'' (\<lambda>m. Inr PyNone) StringType default_converter)
     [(''A'', [message_field ''self'' ''A''])] default_options None ''A'' = Inr StringType"
  by (simp add: message_field_def get_spark_schema.simps register_serializer_def)

text \<open>
  Claim C3. With \<open>example.DecimalMessage\<close> registered for the type \<open>DecimalType 10 2\<close>,
  the derivation returns that type for the message type itself and for its occurrences,
  singular and repeated, two levels below a message type whose fields are all
  message-typed. Unregistering it leaves the schema-type map as it was before the
  registration, and unregistering the timestamp serializer puts the built-in entry of the
  timestamp type back. But the derivation for the unregistered \<open>example.DecimalMessage\<close>,
  whose one field is a string, returns no record type: line 272 raises the
  AttributeError at that field.
\<close>

theorem registered_type_scenario:
  "get_spark_schema decimal_converter decimal_pool default_options None
     ''example.DecimalMessage'' = Inr (DecimalType 10 2) \<and>
   get_spark_schema decimal_converter decimal_pool default_options None ''example.Basket''
     = Inr (StructType
         [StructField ''order''
            (StructType
               [StructField ''decimal'' (DecimalType 10 2) True,
                StructField ''fees'' (ArrayType (DecimalType 10 2) True) True])
            True]) \<and>
   message_type_to_spark_type_map
     (unregister_serializer ''example.DecimalMessage'' decimal_converter)
     = message_type_to_spark_type_map default_converter \<and>
   message_type_to_spark_type_map default_converter ''example.DecimalMessage'' = None \<and>
   get_spark_schema (unregister_serializer ''example.DecimalMessage'' decimal_converter)
     decimal_pool default_options None ''example.DecimalMessage'' = Inl AttributeError \<and>
   get_spark_schema default_converter decimal_pool default_options None
     ''google.protobuf.Timestamp'' = Inr TimestampType \<and>
   get_spark_schema (unregister_timestamp_serializer default_converter) decimal_pool
     default_options None ''google.protobuf.Timestamp'' = Inr StringType"
proof -
  let ?unregistered = "unregister_serializer ''example.DecimalMessage'' decimal_converter"
  have 1: "get_spark_schema decimal_converter decimal_pool default_options None
     ''example.DecimalMessage'' = Inr (DecimalType 10 2)"
    by (rule get_spark_schema_override) (simp add: decimal_converter_def register_serializer_def)
  have 2: "get_spark_schema decimal_converter decimal_pool default_options None ''example.Basket''
     = Inr (StructType
         [StructField ''order''
            (StructType
               [StructField ''decimal'' (DecimalType 10 2) True,
                StructField ''fees'' (ArrayType (DecimalType 10 2) True) True])
            True])"
    by (simp add: get_spark_schema.simps schema_field.simps decimal_converter_def
          converter_defs decimal_pool_def decimal_field_def message_field_def repeated_def
          default_options_def)
  have 3: "message_type_to_spark_type_map default_converter ''example.DecimalMessage'' = None"
    by (simp add: converter_defs)
  have 4: "message_type_to_spark_type_map ?unregistered
             = message_type_to_spark_type_map default_converter"
    using 3
    by (auto simp add: unregister_serializer_def decimal_converter_def register_serializer_def
          MESSAGETYPE_TO_SPARK_TYPE_MAP_def fun_eq_iff)
  have 5: "get_spark_schema ?unregistered decimal_pool default_options None
             ''example.DecimalMessage'' = Inl AttributeError"
    using 3 unfolding 4 [symmetric]
    by (simp add: get_spark_schema.simps schema_field.simps decimal_pool_def scalar_field_def)
  have 6: "get_spark_schema default_converter decimal_pool default_options None
     ''google.protobuf.Timestamp'' = Inr TimestampType"
    by (rule get_spark_schema_override) (simp add: converter_defs)
  have 7: "get_spark_schema (unregister_timestamp_serializer default_converter) decimal_pool
     default_options None ''google.protobuf.Timestamp'' = Inr StringType"
    by (rule get_spark_schema_override)
      (simp add: unregister_timestamp_serializer_def unregister_serializer_def converter_defs)
  from 1 2 3 4 5 6 7 show ?thesis by blast
qed

text \<open>
  Claim C7. After every sequence of \<^verbatim>\<open>register_serializer\<close> and
  \<^verbatim>\<open>unregister_serializer\<close> calls on a newly constructed converter, every full name in
  the custom-serializer map is in the schema-type map; registering sets both entries,
  unregistering removes the serializer and leaves the schema-type map with the built-in
  entry of that name, or with none.
\<close>

theorem registry_lockstep:
  "registry_invariant (foldl registry_step (MessageConverter to_datetime from_datetime) calls) \<and>
   custom_serializers (register_serializer n fn R self) n = Some fn \<and>
   message_type_to_spark_type_map (register_serializer n fn R self) n = Some R \<and>
   custom_serializers (unregister_serializer n self) n = None \<and>
   message_type_to_spark_type_map (unregister_serializer n self) n =
     MESSAGETYPE_TO_SPARK_TYPE_MAP n"
  by (simp add: registry_invariant_foldl registry_invariant_init register_serializer_def
        unregister_serializer_def Let_def split: option.splits)

text \<open>
  Claim C8, as amended. In an acyclic descriptor graph all of whose fields are
  message-typed, let \<open>A\<close> and \<open>B\<close> have no entry in the schema map and let two distinct
  fields of \<open>A\<close> have the message type \<open>B\<close>. With default options the derivation for
  \<open>A\<close> returns a record type with one entry per field of \<open>A\<close>, and both entries carry
  the record type derived for \<open>B\<close> on its own (an array of it when the field is
  repeated): the first expansion of \<open>B\<close> leaves nothing in the seen set of the second.
\<close>

theorem sibling_fields:
  assumes "message_only pool" "ranked rank pool"
    and "message_type_to_spark_type_map self A = None"
    and "message_type_to_spark_type_map self B = None"
    and "map_of pool A = Some fs"
    and "i < length fs" "j < length fs" "i \<noteq> j"
    and "message_type (fs ! i) = Some B" "message_type (fs ! j) = Some B"
  shows "\<exists>schema schemaB.
           get_spark_schema self pool default_options None A = Inr (StructType schema) \<and>
           get_spark_schema self pool default_options None B = Inr (StructType schemaB) \<and>
           length schema = length fs \<and>
           schema ! i = StructField (camelcase_name (fs ! i))
                          (labelled (fs ! i) (StructType schemaB)) True \<and>
           schema ! j = StructField (camelcase_name (fs ! j))
                          (labelled (fs ! j) (StructType schemaB)) True"
proof -
  let ?o = default_options
  have nd: "\<not> ignore_deprecated ?o" by (simp add: default_options_def)
  have n: "field_name_in ?o = camelcase_name"
    by (auto simp: field_name_in_def default_options_def fun_eq_iff)
  from ranked_fields [OF assms(1,2) nd assms(5) subset_refl, of self]
  obtain schema where schema: "schema_fields self pool ?o {A} fs = Inr schema"
    and all: "list_all2 (\<lambda>f e. \<exists>m t. message_type f = Some m \<and>
                        get_spark_schema self pool ?o None m = Inr t \<and>
                        e = StructField (camelcase_name f) (labelled f t) True) fs schema"
    unfolding n by auto
  have A: "get_spark_schema self pool ?o None A = Inr (StructType schema)"
    using assms(3,5) schema by (simp add: get_spark_schema.simps)
  have len: "length schema = length fs" using all by (simp add: list_all2_lengthD)
  from list_all2_nthD [OF all assms(6)] assms(9)
  obtain t where t: "get_spark_schema self pool ?o None B = Inr t"
    "schema ! i = StructField (camelcase_name (fs ! i)) (labelled (fs ! i) t) True"
    by auto
  from list_all2_nthD [OF all assms(7)] assms(10) t(1)
  have j: "schema ! j = StructField (camelcase_name (fs ! j)) (labelled (fs ! j) t) True"
    by auto
  obtain schemaB where "t = StructType schemaB"
    using t(1) assms(4)
    by (auto simp: get_spark_schema.simps split: option.splits sum.splits)
  with A len t j show ?thesis by blast
qed

theorem sibling_fields_witness:
  "message_only sibling_pool \<and> ranked sibling_rank sibling_pool \<and>
   message_type_to_spark_type_map default_converter ''A'' = None \<and>
   message_type_to_spark_type_map default_converter ''B'' = None \<and>
   map_of sibling_pool ''A'' =
     Some [message_field ''b1'' ''B'', repeated (message_field ''b2'' ''B'')] \<and>
   (\<exists>schema schemaB.
      get_spark_schema default_converter sibling_pool default_options None ''A''
        = Inr (StructType schema) \<and>
      get_spark_schema default_converter sibling_pool default_options None ''B''
        = Inr (StructType schemaB) \<and>
      length schema = 2 \<and>
      schema ! 0 = StructField ''b1'' (StructType schemaB) True \<and>
      schema ! 1 = StructField ''b2'' (ArrayType (StructType schemaB) True) True)"
proof -
  let ?fs = "[message_field ''b1'' ''B'', repeated (message_field ''b2'' ''B'')]"
  have 1: "message_only sibling_pool"
    by (simp add: message_only_def sibling_pool_def message_field_def repeated_def
          pool_names_def)
  have 2: "ranked sibling_rank sibling_pool"
    by (simp add: ranked_def sibling_pool_def message_field_def repeated_def sibling_rank_def)
  have 3: "message_type_to_spark_type_map default_converter ''A'' = None"
    and 4: "message_type_to_spark_type_map default_converter ''B'' = None"
    by (simp_all add: default_converter_def MessageConverter_def
          register_timestamp_serializer_def register_timestamp_deserializer_def
          register_serializer_def register_deserializer_def Timestamp_def
          MESSAGETYPE_TO_SPARK_TYPE_MAP_def)
  have 5: "map_of sibling_pool ''A'' = Some ?fs"
    by (simp add: sibling_pool_def)
  have 6: "0 < length ?fs" "1 < length ?fs" "(0::nat) \<noteq> 1"
    "message_type (?fs ! 0) = Some ''B''" "message_type (?fs ! 1) = Some ''B''"
    by (simp_all add: message_field_def repeated_def)
  from sibling_fields [OF 1 2 3 4 5 6] 1 2 3 4 5 show ?thesis
    by (simp add: labelled_def message_field_def repeated_def numeral_2_eq_2)
qed

text \<open>
  Claim C8 as stated fails on a cycle that passes through neither \<open>A\<close> nor \<open>B\<close>: here
  \<open>A\<close> has two fields of type \<open>B\<close>, \<open>B\<close> contains neither \<open>A\<close> nor \<open>B\<close>, and the
  derivation fails with the circular-definition error for \<open>C\<close>.
\<close>

theorem sibling_fields_nested_cycle:
  "get_spark_schema default_converter nested_cycle_pool default_options None ''A''
     = Inl (CircularDefinition ''C'')"
  by (simp add: get_spark_schema.simps schema_field.simps nested_cycle_pool_def
        message_field_def default_options_def default_converter_def MessageConverter_def
        register_timestamp_serializer_def register_timestamp_deserializer_def
        register_serializer_def register_deserializer_def Timestamp_def
        MESSAGETYPE_TO_SPARK_TYPE_MAP_def)

text \<open>
  Claim C9, as amended. Line 272 reads \<^verbatim>\<open>field.message_type.full_name\<close> for every
  field before anything else. For a descriptor without an entry in the schema map and
  with a field that is not message-typed, \<^verbatim>\<open>get_spark_schema\<close> returns no schema: it
  raises the exception of the fields before that field if one of them raises, and the
  AttributeError otherwise (so always when that field is the first).
\<close>

theorem scalar_field_aborts:
  assumes "message_type_to_spark_type_map self d = None"
    and "map_of pool d = Some (pre @ field # post)"
    and "message_type field = None"
  shows "get_spark_schema self pool options so d =
           (case schema_fields self pool options (insert d (seen_set so)) pre of
              Inl e \<Rightarrow> Inl e
            | Inr schema \<Rightarrow> Inl AttributeError)"
  using assms
  by (simp add: get_spark_schema.simps seen_set_case schema_fields_append schema_field_scalar
        split: sum.splits)

theorem scalar_field_aborts_witness:
  "message_type_to_spark_type_map default_converter ''M'' = None \<and>
   map_of [(''M'', [scalar_field ''x'' CPPTYPE_INT32 TYPE_INT32])] ''M''
     = Some ([] @ scalar_field ''x'' CPPTYPE_INT32 TYPE_INT32 # []) \<and>
   message_type (scalar_field ''x'' CPPTYPE_INT32 TYPE_INT32) = None \<and>
   get_spark_schema default_converter [(''M'', [scalar_field ''x'' CPPTYPE_INT32 TYPE_INT32])]
     default_options None ''M'' = Inl AttributeError"
proof -
  have 1: "message_type_to_spark_type_map default_converter ''M'' = None"
    by (simp add: default_converter_def MessageConverter_def register_timestamp_serializer_def
          register_timestamp_deserializer_def register_serializer_def register_deserializer_def
          Timestamp_def MESSAGETYPE_TO_SPARK_TYPE_MAP_def)
  have 2: "map_of [(''M'', [scalar_field ''x'' CPPTYPE_INT32 TYPE_INT32])] ''M''
             = Some ([] @ scalar_field ''x'' CPPTYPE_INT32 TYPE_INT32 # [])"
    by simp
  have 3: "message_type (scalar_field ''x'' CPPTYPE_INT32 TYPE_INT32) = None"
    by (simp add: scalar_field_def)
  from scalar_field_aborts [OF 1 2 3, of default_options None] 1 2 3 show ?thesis
    by simp
qed

text \<open>
  Claim C9 as stated fails where a field before the first one that is not message-typed
  raises: a descriptor outside the schema map with a field of its own type followed by
  an \<open>int32\<close> field raises the circular-definition error, not the AttributeError.
\<close>

theorem scalar_field_after_cycle:
  "message_type_to_spark_type_map default_converter ''A'' = None \<and>
   message_type (scalar_field ''x'' CPPTYPE_INT32 TYPE_INT32) = None \<and>
   get_spark_schema default_converter mixed_pool default_options None ''A''
     = Inl (CircularDefinition ''A'')"
  by (simp add: get_spark_schema.simps schema_field.simps mixed_pool_def
        message_field_def scalar_field_def default_options_def default_converter_def
        MessageConverter_def register_timestamp_serializer_def
        register_timestamp_deserializer_def register_serializer_def register_deserializer_def
        Timestamp_def MESSAGETYPE_TO_SPARK_TYPE_MAP_def)

section \<open>Facts about conversion\<close>

lemmas printer_simps =
  MessageToJsonObject.simps super_MessageToJsonObject.simps RegularMessageToJsonObject.simps
  FieldToJsonObject.simps super_FieldToJsonObject.simps

lemma ListFields_unset: "ListFields fs (replicate n None) = []"
proof (induction fs arbitrary: n)
  case Nil
  then show ?case by simp
next
  case (Cons f fs)
  then show ?case by (cases n) simp_all
qed

lemma ListFields_single:
  "i < length fs \<Longrightarrow>
     ListFields fs ((replicate (length fs) None)[i := Some v]) = [(fs ! i, v)]"
proof (induction fs arbitrary: i)
  case Nil
  then show ?case by simp
next
  case (Cons f fs)
  show ?case
  proof (cases i)
    case 0
    then show ?thesis by (simp add: ListFields_unset)
  next
    case (Suc j)
    then show ?thesis using Cons by simp
  qed
qed

lemma find_last_by_index:
  "find_last_by key k fs j = Some (i, f) \<Longrightarrow> j \<le> i \<and> i < j + length fs \<and> f = fs ! (i - j)"
proof (induction fs arbitrary: j)
  case Nil
  then show ?case by simp
next
  case (Cons g fs)
  show ?case
  proof (cases "find_last_by key k fs (Suc j)")
    case None
    then show ?thesis using Cons.prems by (auto split: if_splits)
  next
    case (Some found)
    then have "find_last_by key k fs (Suc j) = Some (i, f)" using Cons.prems by simp
    from Cons.IH [OF this] show ?thesis by (auto simp: Suc_diff_le)
  qed
qed

lemma find_field_index:
  "find_field fs k = Some (i, f) \<Longrightarrow> i < length fs \<and> f = fs ! i"
  unfolding find_field_def
  by (auto split: option.splits dest!: find_last_by_index)

lemma print_single:
  assumes "map_of pool T = Some fields'" "T \<notin> WELL_KNOWN" "custom_serializers self T = None"
    and "i < length fields'" "label (fields' ! i) \<noteq> LABEL_REPEATED"
    and "FieldToJsonObject
           \<lparr>printer_custom_serializers = custom_serializers self,
            including_default_value_fields = False,
            printer_preserving_proto_field_name = p, use_integers_for_enums = u,
            printer_descriptor_pool = dp, float_format = float_format_of fp\<rparr>
           pool (fields' ! i) v = Inr w"
  shows "message_to_dict self pool (set_slot (new_instance T fields') i v) False p u dp fp
           = Inr (PyDict [(output_name p (fields' ! i), w)])"
  using assms
  by (simp add: message_to_dict_def MessageToJsonObject.simps super_MessageToJsonObject.simps
        RegularMessageToJsonObject.simps new_instance_def set_slot_def ListFields_single
        output_name_def)

lemma parse_single:
  assumes "map_of pool T = Some fields'" "T \<notin> WELL_KNOWN" "custom_deserializers self T = None"
    and "find_field fields' k = Some (i, field)" "label field \<noteq> LABEL_REPEATED"
    and "cpp_type field \<noteq> CPPTYPE_MESSAGE" "v \<noteq> PyNone" "1 \<le> max_depth"
    and "handle_bytes convert v field (short_name T @ ''.'' @ k) False = Inr converted"
    and "setattr (new_instance T fields') i field converted = Inr message'"
  shows "parse_dict self pool (PyDict [(k, v)]) (new_instance T fields') iu max_depth convert
           = (Inr message', convert)"
  using assms
  by (simp add: parse_dict_def ConvertMessage.simps super_ConvertMessage.simps
        ConvertFieldValuePair.simps patched_convert_scalar_field_value_def new_instance_def
        Let_def)

section \<open>The claims about conversion\<close>

text \<open>
  Claim C1. For the message of the scenario, \<^verbatim>\<open>message_to_dict\<close> with default options
  returns the mapping the claim gives (its entries in field order); but
  \<^verbatim>\<open>get_spark_schema\<close> on its message type returns no schema: line 272 raises the
  AttributeError at the first field, \<open>int32\<close>, which is not message-typed.
\<close>

theorem example_scenario:
  "message_to_dict default_converter example_pool example_message False False False None None
     = Inr (PyDict
         [(''int32'', PyInt 69),
          (''enum'', PyStr ''first''),
          (''nested'', PyDict [(''key'', PyStr ''hello''), (''value'', PyStr ''world'')]),
          (''stringlist'', PyList [PyStr ''one'', PyStr ''two'', PyStr ''three'']),
          (''bytes'', PyBytes ''something'')]) \<and>
   get_spark_schema default_converter example_pool default_options None ''example.ExampleMessage''
     = Inl AttributeError"
proof -
  have "message_to_dict default_converter example_pool example_message False False False None None
     = Inr (PyDict
         [(''int32'', PyInt 69),
          (''enum'', PyStr ''first''),
          (''nested'', PyDict [(''key'', PyStr ''hello''), (''value'', PyStr ''world'')]),
          (''stringlist'', PyList [PyStr ''one'', PyStr ''two'', PyStr ''three'']),
          (''bytes'', PyBytes ''something'')])"
    by (simp add: message_to_dict_def printer_simps converter_defs example_pool_def
          example_message_def scalar_field_def message_field_def repeated_def SomeEnum_def
          WELL_KNOWN_def INT64_TYPES_def)
  moreover have "get_spark_schema default_converter example_pool default_options None
      ''example.ExampleMessage'' = Inl AttributeError"
    by (simp add: get_spark_schema.simps schema_field.simps converter_defs example_pool_def
          scalar_field_def)
  ultimately show ?thesis by simp
qed

text \<open>
  Claim C4. For a byte-string field, \<^verbatim>\<open>_FieldToJsonObject\<close> returns the field's value
  itself, whatever the printer's options, and the patched scalar conversion returns the
  \<open>bytes\<close> of a \<open>bytes\<close> or \<open>bytearray\<close> input, whatever function it wraps. For a
  message of a type without custom serializer or deserializer whose only populated field
  is a singular byte-string field holding \<open>b\<close>, \<^verbatim>\<open>message_to_dict\<close> (without
  \<^verbatim>\<open>including_default_value_fields\<close>, whatever its other options) returns the
  mapping of the field's key to \<open>b\<close>, and \<^verbatim>\<open>parse_dict\<close> of the mapping of that key to
  \<open>b\<close>, as \<open>bytes\<close> or as \<open>bytearray\<close>, into a new instance stores \<open>b\<close> as \<open>bytes\<close>.
\<close>

theorem bytes_fidelity:
  assumes "cpp_type field = CPPTYPE_STRING" "type field = TYPE_BYTES"
    and "label field \<noteq> LABEL_REPEATED"
    and "map_of pool T = Some fields'" "T \<notin> WELL_KNOWN"
    and "custom_serializers self T = None" "custom_deserializers self T = None"
    and "find_field fields' (output_name p field) = Some (i, field)"
    and "has_presence field \<or> b \<noteq> []" "1 \<le> max_depth"
    and "raw = PyBytes b \<or> raw = PyBytearray b"
  shows "FieldToJsonObject printer pool field v = Inr v \<and>
         handle_bytes func raw field path require_str = Inr (PyBytes b) \<and>
         message_to_dict self pool (set_slot (new_instance T fields') i (PyBytes b)) False p u dp fp
           = Inr (PyDict [(output_name p field, PyBytes b)]) \<and>
         parse_dict self pool (PyDict [(output_name p field, raw)]) (new_instance T fields')
             ignore_unknown max_depth convert
           = (Inr (set_slot (new_instance T fields') i (PyBytes b)), convert)"
proof -
  have enc: "FieldToJsonObject printer pool field v = Inr v" for printer v
    using assms(1,2) by (simp add: FieldToJsonObject.simps)
  have dec: "handle_bytes func raw field path require_str = Inr (PyBytes b)"
    for func path require_str
    using assms(1,2,11) by (auto simp: handle_bytes_def)
  from find_field_index [OF assms(8)] have i: "i < length fields'" "field = fields' ! i"
    by simp_all
  have m: "message_to_dict self pool (set_slot (new_instance T fields') i (PyBytes b)) False p u dp fp
           = Inr (PyDict [(output_name p field, PyBytes b)])"
    using print_single [OF assms(4,5,6) i(1), where v = "PyBytes b" and w = "PyBytes b"
        and p = p and u = u and dp = dp and fp = fp] assms(3) enc i(2)
    by simp
  have s: "setattr (new_instance T fields') i field (PyBytes b)
             = Inr (set_slot (new_instance T fields') i (PyBytes b))"
    using assms(1,2,9) by (auto simp: setattr_def CheckValue_def INT_TYPES_def zero_value_def)
  have "raw \<noteq> PyNone" using assms(11) by auto
  from parse_single [OF assms(4,5,7,8,3) _ this assms(10) dec s] assms(1)
  have "parse_dict self pool (PyDict [(output_name p field, raw)]) (new_instance T fields')
             ignore_unknown max_depth convert
           = (Inr (set_slot (new_instance T fields') i (PyBytes b)), convert)"
    by simp
  with enc dec m show ?thesis by blast
qed

theorem bytes_fidelity_witness:
  "find_field (the (map_of example_pool ''example.ExampleMessage'')) ''bytes''
     = Some (4, scalar_field ''bytes'' CPPTYPE_STRING TYPE_BYTES) \<and>
   message_to_dict default_converter example_pool
       (set_slot (new_instance ''example.ExampleMessage''
                    (the (map_of example_pool ''example.ExampleMessage'')))
          4 (PyBytes ''something'')) False False False None None
     = Inr (PyDict [(''bytes'', PyBytes ''something'')]) \<and>
   parse_dict default_converter example_pool (PyDict [(''bytes'', PyBytearray ''something'')])
       (new_instance ''example.ExampleMessage''
          (the (map_of example_pool ''example.ExampleMessage'')))
       False 100 ConvertScalarFieldValue
     = (Inr (set_slot (new_instance ''example.ExampleMessage''
                         (the (map_of example_pool ''example.ExampleMessage'')))
               4 (PyBytes ''something'')),
        ConvertScalarFieldValue)"
proof -
  let ?field = "scalar_field ''bytes'' CPPTYPE_STRING TYPE_BYTES"
  let ?fields = "the (map_of example_pool ''example.ExampleMessage'')"
  have 1: "cpp_type ?field = CPPTYPE_STRING" "type ?field = TYPE_BYTES"
    "label ?field \<noteq> LABEL_REPEATED"
    by (simp_all add: scalar_field_def)
  have 2: "map_of example_pool ''example.ExampleMessage'' = Some ?fields"
    by (simp add: example_pool_def)
  have 3: "''example.ExampleMessage'' \<notin> WELL_KNOWN"
    by (simp add: WELL_KNOWN_def)
  have 4: "custom_serializers default_converter ''example.ExampleMessage'' = None"
    "custom_deserializers default_converter ''example.ExampleMessage'' = None"
    by (simp_all add: converter_defs)
  have 5: "find_field ?fields (output_name False ?field) = Some (4, ?field)"
    by (simp add: find_field_def output_name_def example_pool_def scalar_field_def
          message_field_def repeated_def)
  have 6: "has_presence ?field \<or> ''something'' \<noteq> []" "(1::int) \<le> 100"
    "PyBytearray ''something'' = PyBytes ''something'' \<or>
     PyBytearray ''something'' = PyBytearray ''something''"
    by simp_all
  have n: "output_name False ?field = ''bytes''"
    by (simp add: output_name_def scalar_field_def)
  from bytes_fidelity [OF 1 2 3 4 5 6, where u = False and ignore_unknown = False
      and convert = ConvertScalarFieldValue and dp = None and fp = None] 5
  show ?thesis unfolding n by blast
qed



text \<open>
  Claim C10. Whatever the value, the message and the state, and whether the conversion
  returns or raises, the function found in \<^verbatim>\<open>json_format._ConvertScalarFieldValue\<close>
  after \<^verbatim>\<open>ConvertMessage\<close> is the function found there before, and so it is after
  \<^verbatim>\<open>parse_dict\<close>; with a custom deserializer the attribute is not rebound at all, and
  otherwise the runtime's structural conversion, and only it, runs with the attribute
  bound to the function wrapped by \<^verbatim>\<open>_handle_bytes\<close>.
\<close>

theorem scalar_conversion_restored:
  "ConvertScalarFieldValue_attr (snd (ConvertMessage self pool value message path st))
     = ConvertScalarFieldValue_attr st \<and>
   snd (parse_dict converter pool value message ignore_unknown max_depth convert) = convert \<and>
   ConvertMessage self pool value message path st =
     (case parser_custom_deserializers self (DESCRIPTOR message) of
        Some deserializer \<Rightarrow> (deserializer value message path, st)
      | None \<Rightarrow>
         (fst (super_ConvertMessage self pool value message path
                 (st\<lparr>ConvertScalarFieldValue_attr :=
                       handle_bytes (ConvertScalarFieldValue_attr st)\<rparr>)),
          (snd (super_ConvertMessage self pool value message path
                 (st\<lparr>ConvertScalarFieldValue_attr :=
                       handle_bytes (ConvertScalarFieldValue_attr st)\<rparr>)))
            \<lparr>ConvertScalarFieldValue_attr := ConvertScalarFieldValue_attr st\<rparr>))"
proof -
  have a: "ConvertScalarFieldValue_attr (snd (ConvertMessage self pool v message path st))
     = ConvertScalarFieldValue_attr st" for self pool v message path st
    by (simp add: ConvertMessage.simps patched_convert_scalar_field_value_def Let_def
          split: option.splits prod.splits)
  have b: "snd (parse_dict converter pool value message ignore_unknown max_depth convert)
             = convert"
    using a [of "\<lparr>parser_custom_deserializers = custom_deserializers converter,
                   ignore_unknown_fields = ignore_unknown,
                   max_recursion_depth = max_depth\<rparr>" pool "value" message "[]"
               "\<lparr>ConvertScalarFieldValue_attr = convert, recursion_depth = 0\<rparr>"]
    by (auto simp add: parse_dict_def Let_def split: prod.splits)
  have c: "ConvertMessage self pool value message path st =
     (case parser_custom_deserializers self (DESCRIPTOR message) of
        Some deserializer \<Rightarrow> (deserializer value message path, st)
      | None \<Rightarrow>
         (fst (super_ConvertMessage self pool value message path
                 (st\<lparr>ConvertScalarFieldValue_attr :=
                       handle_bytes (ConvertScalarFieldValue_attr st)\<rparr>)),
          (snd (super_ConvertMessage self pool value message path
                 (st\<lparr>ConvertScalarFieldValue_attr :=
                       handle_bytes (ConvertScalarFieldValue_attr st)\<rparr>)))
            \<lparr>ConvertScalarFieldValue_attr := ConvertScalarFieldValue_attr st\<rparr>))"
    by (simp add: ConvertMessage.simps patched_convert_scalar_field_value_def Let_def
          split: option.splits prod.splits)
  from a b c show ?thesis by blast
qed

end
